theory Spec2Isabelle
  imports Complex_Main "HOL-Library.Multiset"
begin

section \<open>Shared data\<close>

text \<open>
  JavaScript numbers that reach the handlers below come out of JSON or out of a guarded
  \<open>parseFloat\<close>; they are modelled as \<open>real\<close>, and a JSON \<open>null\<close> or a \<open>NaN\<close> as
  \<open>None\<close>; JSON carries neither \<open>NaN\<close> nor an infinity, and an infinite parse result is
  outside the model. Numeric ids are \<open>int\<close>.

  \<open>mealCategories\<close> (App.tsx) is the constant list of the five category names
  \<open>'Breakfast', 'Lunch', 'Dinner', 'Morning Snacks', 'Evening Snacks'\<close>. Every dictionary
  of the front end that is keyed by a category is keyed by one of these five strings (the
  data model fixes the meal category of an item to this set), so the key type is the
  enumeration below, and \<open>category_name\<close> gives the string.
\<close>

datatype meal_category = Breakfast | Lunch | Dinner | MorningSnacks | EveningSnacks

definition mealCategories :: "meal_category list" where
  "mealCategories = [Breakfast, Lunch, Dinner, MorningSnacks, EveningSnacks]"

fun category_name :: "meal_category \<Rightarrow> string" where
  "category_name Breakfast = ''Breakfast''"
| "category_name Lunch = ''Lunch''"
| "category_name Dinner = ''Dinner''"
| "category_name MorningSnacks = ''Morning Snacks''"
| "category_name EveningSnacks = ''Evening Snacks''"

text \<open>What a \<open>fetch\<close> gives back to a handler: a 2xx reply with its JSON body, a reply
  that is not ok with its \<open>detail\<close> (or status text), or a thrown network error.\<close>

datatype 'a response = Ok 'a | NotOk string | NetworkError string

section \<open>Kitchen dashboard (KitchenDashboard.tsx)\<close>

record Patient =
  pat_id :: int
  hospital_id :: string
  name :: string
  age :: int
  sex :: string

record MealPlanItem =
  item_id :: int
  meal_category :: meal_category
  item_food_name :: string
  item_quantity :: real
  prepared :: bool
  delivered :: bool

record MealPlan =
  plan_id :: int
  timestamp :: string
  patient :: "Patient option"
  items :: "MealPlanItem list"

subsection \<open>DashboardSummary\<close>

record SummaryEntry =
  entry_planId :: int
  entry_mealCategory :: meal_category
  entry_foodName :: string

text \<open>The object literal that every one of the four \<open>flatMap\<close> bodies builds.\<close>

definition summary_entry :: "MealPlan \<Rightarrow> MealPlanItem \<Rightarrow> SummaryEntry" where
  "summary_entry plan item =
     \<lparr>entry_planId = plan_id plan, entry_mealCategory = meal_category item,
      entry_foodName = item_food_name item\<rparr>"

definition flatMap :: "('a \<Rightarrow> 'b list) \<Rightarrow> 'a list \<Rightarrow> 'b list" where
  "flatMap f xs = concat (map f xs)"

definition preparedItems :: "MealPlan list \<Rightarrow> SummaryEntry list" where
  "preparedItems mealPlans =
     flatMap (\<lambda>plan. map (summary_entry plan) (filter (\<lambda>item. prepared item) (items plan))) mealPlans"

definition deliveredItems :: "MealPlan list \<Rightarrow> SummaryEntry list" where
  "deliveredItems mealPlans =
     flatMap (\<lambda>plan. map (summary_entry plan) (filter (\<lambda>item. delivered item) (items plan))) mealPlans"

definition unpreparedItems :: "MealPlan list \<Rightarrow> SummaryEntry list" where
  "unpreparedItems mealPlans =
     flatMap (\<lambda>plan. map (summary_entry plan) (filter (\<lambda>item. \<not> prepared item) (items plan))) mealPlans"

definition notDeliveredItems :: "MealPlan list \<Rightarrow> SummaryEntry list" where
  "notDeliveredItems mealPlans =
     flatMap (\<lambda>plan. map (summary_entry plan) (filter (\<lambda>item. \<not> delivered item) (items plan))) mealPlans"

text \<open>Every item of every plan, as a summary entry: what the four lists are compared with.\<close>

definition allItems :: "MealPlan list \<Rightarrow> MealPlanItem list" where
  "allItems mealPlans = flatMap items mealPlans"

definition allEntries :: "MealPlan list \<Rightarrow> SummaryEntry list" where
  "allEntries mealPlans = flatMap (\<lambda>plan. map (summary_entry plan) (items plan)) mealPlans"

subsection \<open>groupedMealItems\<close>

text \<open>\<open>MealPlanItem & { patientName; patientHospitalId }\<close>, built by the spread
  \<open>{...item, patientName: plan.patient!.name, patientHospitalId: plan.patient!.hospital_id}\<close>.\<close>

record GroupedItem = MealPlanItem +
  patientName :: string
  patientHospitalId :: string

definition with_patient :: "Patient \<Rightarrow> MealPlanItem \<Rightarrow> GroupedItem" where
  "with_patient p item =
     \<lparr>item_id = item_id item, meal_category = meal_category item,
      item_food_name = item_food_name item, item_quantity = item_quantity item,
      prepared = prepared item, delivered = delivered item,
      patientName = name p, patientHospitalId = hospital_id p\<rparr>"

type_synonym grouped = "(meal_category \<times> GroupedItem list) list"

text \<open>
  \<open>if (!grouped[c]) grouped[c] = []; grouped[c].push(x)\<close> on an object whose keys keep
  their insertion order: an existing key has \<open>x\<close> appended to its array, a new key is
  added last with the array \<open>[x]\<close>.
\<close>

fun push_grouped :: "meal_category \<Rightarrow> GroupedItem \<Rightarrow> grouped \<Rightarrow> grouped" where
  "push_grouped c x [] = [(c, [x])]"
| "push_grouped c x ((k, xs) # g) =
     (if k = c then (k, xs @ [x]) # g else (k, xs) # push_grouped c x g)"

definition group_plan :: "MealPlan \<Rightarrow> grouped \<Rightarrow> grouped" where
  "group_plan plan g =
     (case patient plan of
        None \<Rightarrow> g
      | Some p \<Rightarrow> fold (\<lambda>item. push_grouped (meal_category item) (with_patient p item)) (items plan) g)"

definition groupedMealItems :: "MealPlan list \<Rightarrow> grouped" where
  "groupedMealItems mealPlans = fold group_plan mealPlans []"

text \<open>The items a plan shows in the time view according to the claim: all of them, with
  the patient's name and hospital id, when the plan has a patient, and none otherwise.\<close>

definition time_view_items :: "MealPlan \<Rightarrow> GroupedItem list" where
  "time_view_items plan =
     (case patient plan of None \<Rightarrow> [] | Some p \<Rightarrow> map (with_patient p) (items plan))"

text \<open>No group is empty and every entry of a group has the group's key as its meal
  category.\<close>

definition well_keyed :: "grouped \<Rightarrow> bool" where
  "well_keyed g = list_all (\<lambda>(k, xs). xs \<noteq> [] \<and> list_all (\<lambda>e. meal_category e = k) xs) g"

subsection \<open>handleStatusChange\<close>

datatype status_type = PreparedFlag | DeliveredFlag

text \<open>The spread \<open>{ ...item, [type]: newStatus }\<close>.\<close>

fun set_status :: "status_type \<Rightarrow> bool \<Rightarrow> MealPlanItem \<Rightarrow> MealPlanItem" where
  "set_status PreparedFlag newStatus item = item\<lparr>prepared := newStatus\<rparr>"
| "set_status DeliveredFlag newStatus item = item\<lparr>delivered := newStatus\<rparr>"

definition update_item :: "int \<Rightarrow> status_type \<Rightarrow> bool \<Rightarrow> MealPlanItem \<Rightarrow> MealPlanItem" where
  "update_item itemId type newStatus item =
     (if item_id item = itemId then set_status type newStatus item else item)"

datatype dashboard_error =
    StatusUpdateFailed int string
  | StatusNetworkError string

record dashboard_state =
  mealPlans :: "MealPlan list"
  error :: "dashboard_error option"

text \<open>
  The handler sends \<open>PATCH /meal-plan-items/{itemId}\<close> with the body \<open>{[type]: newStatus}\<close>
  and then acts on the reply, which is the first argument here: on an ok reply the item
  with this id gets the one flag set in every plan of the local state, otherwise the
  error is recorded and the plans are left alone.
\<close>

fun handleStatusChange ::
  "unit response \<Rightarrow> int \<Rightarrow> status_type \<Rightarrow> bool \<Rightarrow> dashboard_state \<Rightarrow> dashboard_state" where
  "handleStatusChange (Ok _) itemId type newStatus s =
     s\<lparr>mealPlans :=
         map (\<lambda>plan. plan\<lparr>items := map (update_item itemId type newStatus) (items plan)\<rparr>)
           (mealPlans s)\<rparr>"
| "handleStatusChange (NotOk detail) itemId type newStatus s =
     s\<lparr>error := Some (StatusUpdateFailed itemId detail)\<rparr>"
| "handleStatusChange (NetworkError msg) itemId type newStatus s =
     s\<lparr>error := Some (StatusNetworkError msg)\<rparr>"

text \<open>The four updates of the lifecycle, as the check boxes of the dashboard issue them.\<close>

definition markPrepared :: "MealPlanItem \<Rightarrow> MealPlanItem" where
  "markPrepared item = update_item (item_id item) PreparedFlag True item"

definition markDelivered :: "MealPlanItem \<Rightarrow> MealPlanItem" where
  "markDelivered item = update_item (item_id item) DeliveredFlag True item"

definition markUnprepared :: "MealPlanItem \<Rightarrow> MealPlanItem" where
  "markUnprepared item = update_item (item_id item) PreparedFlag False item"

definition markNotDelivered :: "MealPlanItem \<Rightarrow> MealPlanItem" where
  "markNotDelivered item = update_item (item_id item) DeliveredFlag False item"

text \<open>Example data: one plan of one patient with a Pending breakfast item and a Prepared
  lunch item, and one plan whose patient was deleted.\<close>

definition rice_item :: MealPlanItem where
  "rice_item = \<lparr>item_id = 1, meal_category = Breakfast, item_food_name = ''Rice'',
     item_quantity = 2, prepared = False, delivered = False\<rparr>"

definition dal_item :: MealPlanItem where
  "dal_item = \<lparr>item_id = 2, meal_category = Lunch, item_food_name = ''Dal'',
     item_quantity = 1, prepared = True, delivered = False\<rparr>"

definition asha :: Patient where
  "asha = \<lparr>pat_id = 7, hospital_id = ''H-7'', name = ''Asha'', age = 54, sex = ''F''\<rparr>"

definition asha_plan :: MealPlan where
  "asha_plan = \<lparr>plan_id = 10, timestamp = ''2025-01-01T08:00:00'', patient = Some asha,
     items = [rice_item, dal_item]\<rparr>"

definition soup_item :: MealPlanItem where
  "soup_item = \<lparr>item_id = 3, meal_category = Dinner, item_food_name = ''Soup'',
     item_quantity = 1, prepared = False, delivered = False\<rparr>"

definition orphan_plan :: MealPlan where
  "orphan_plan = \<lparr>plan_id = 11, timestamp = ''2025-01-01T09:00:00'', patient = None,
     items = [soup_item]\<rparr>"

definition dashboard0 :: dashboard_state where
  "dashboard0 = \<lparr>mealPlans = [asha_plan, orphan_plan], error = None\<rparr>"

section \<open>Nutrition planner (App.tsx)\<close>

record SelectedFood =
  food_name :: string
  quantity :: real

text \<open>One line of \<open>selected_menu\<close>: the menu line with the serving-size label.\<close>

record MenuLine = SelectedFood +
  serving_size :: string

text \<open>\<open>total_nutrients\<close>, \<open>rda_targets\<close> and \<open>nutrient_comparison\<close> are JSON objects,
  rendered through \<open>Object.entries\<close>: lists of key and value in the object's order, in
  which a value can be \<open>null\<close> (each of the three tables tests for it).\<close>

record CalculationResult =
  selected_menu :: "MenuLine list"
  total_nutrients :: "(string \<times> real option) list"
  rda_profile_name :: string
  rda_targets :: "(string \<times> real option) list"
  nutrient_comparison :: "(string \<times> real option) list"
  final_summary :: string

datatype message =
    Text string
  | AddedToMeal real string meal_category
  | CalculationError string
  | CalculationNetworkError string
  | SendError string
  | SendNetworkError string

record app_state =
  selectedFoods :: "SelectedFood list"
  selectedRdaProfile :: string
  calculationResult :: "CalculationResult option"
  mealPlan :: "meal_category \<Rightarrow> SelectedFood list"
  selectedPatient :: "int option"
  message :: message

definition initial_state :: app_state where
  "initial_state =
     \<lparr>selectedFoods = [], selectedRdaProfile = [], calculationResult = None,
      mealPlan = (\<lambda>category. []), selectedPatient = None, message = Text []\<rparr>"

subsection \<open>Menu selection handlers\<close>

text \<open>\<open>Array.prototype.findIndex\<close>, with \<open>None\<close> for \<open>-1\<close>.\<close>

fun findIndex :: "('a \<Rightarrow> bool) \<Rightarrow> 'a list \<Rightarrow> nat option" where
  "findIndex P [] = None"
| "findIndex P (x # xs) = (if P x then Some 0 else map_option Suc (findIndex P xs))"

text \<open>\<open>xs.splice(i, 1)\<close> for an index inside the array.\<close>

definition splice1 :: "nat \<Rightarrow> 'a list \<Rightarrow> 'a list" where
  "splice1 i xs = take i xs @ drop (Suc i) xs"

text \<open>The updater that \<open>handleFoodQuantityChange\<close> passes to \<open>setSelectedFoods\<close>.\<close>

definition change_quantity :: "string \<Rightarrow> real \<Rightarrow> SelectedFood list \<Rightarrow> SelectedFood list" where
  "change_quantity foodName qty prevSelectedFoods =
     (case findIndex (\<lambda>item. food_name item = foodName) prevSelectedFoods of
        Some existingIndex \<Rightarrow>
          (if qty = 0 then splice1 existingIndex prevSelectedFoods
           else prevSelectedFoods[existingIndex := (prevSelectedFoods ! existingIndex)\<lparr>quantity := qty\<rparr>])
      | None \<Rightarrow>
          (if qty > 0 then prevSelectedFoods @ [\<lparr>food_name = foodName, quantity = qty\<rparr>]
           else prevSelectedFoods))"

text \<open>
  \<open>parseFloat\<close> is the first argument: any function from the text of the input field to
  a number, with \<open>None\<close> for \<open>NaN\<close>.
\<close>

definition handleFoodQuantityChange ::
  "(string \<Rightarrow> real option) \<Rightarrow> string \<Rightarrow> string \<Rightarrow> app_state \<Rightarrow> app_state" where
  "handleFoodQuantityChange parseFloat foodName quantityText s =
     (case parseFloat quantityText of
        None \<Rightarrow> s
      | Some qty \<Rightarrow>
          (if qty < 0 then s
           else s\<lparr>selectedFoods := change_quantity foodName qty (selectedFoods s)\<rparr>))"

definition getSelectedFoodQuantity :: "string \<Rightarrow> app_state \<Rightarrow> real" where
  "getSelectedFoodQuantity foodName s =
     (case find (\<lambda>item. food_name item = foodName) (selectedFoods s) of
        Some food \<Rightarrow> quantity food
      | None \<Rightarrow> 0)"

text \<open>The updater that \<open>handleAddToMeal\<close> passes to \<open>setMealPlan\<close>, on one category.\<close>

definition add_to_category :: "string \<Rightarrow> real \<Rightarrow> SelectedFood list \<Rightarrow> SelectedFood list" where
  "add_to_category foodName qty updatedCategoryFoods =
     (case findIndex (\<lambda>item. food_name item = foodName) updatedCategoryFoods of
        Some existingIndex \<Rightarrow>
          updatedCategoryFoods[existingIndex := (updatedCategoryFoods ! existingIndex)\<lparr>quantity := qty\<rparr>]
      | None \<Rightarrow> updatedCategoryFoods @ [\<lparr>food_name = foodName, quantity = qty\<rparr>])"

definition handleAddToMeal :: "string \<Rightarrow> real \<Rightarrow> meal_category \<Rightarrow> app_state \<Rightarrow> app_state" where
  "handleAddToMeal foodName qty mealCategory s =
     (if qty \<le> 0 then s\<lparr>message := Text ''Quantity must be greater than 0 to add to meal plan.''\<rparr>
      else s\<lparr>mealPlan := (mealPlan s)(mealCategory := add_to_category foodName qty (mealPlan s mealCategory)),
             message := AddedToMeal qty foodName mealCategory\<rparr>)"

text \<open>The two menu handlers as events, and a run of events from a state.\<close>

datatype menu_event =
    FoodQuantityChange string string
  | AddToMeal string real meal_category

fun menu_step :: "(string \<Rightarrow> real option) \<Rightarrow> menu_event \<Rightarrow> app_state \<Rightarrow> app_state" where
  "menu_step parseFloat (FoodQuantityChange foodName quantityText) s =
     handleFoodQuantityChange parseFloat foodName quantityText s"
| "menu_step parseFloat (AddToMeal foodName qty mealCategory) s =
     handleAddToMeal foodName qty mealCategory s"

definition run_menu :: "(string \<Rightarrow> real option) \<Rightarrow> menu_event list \<Rightarrow> app_state \<Rightarrow> app_state" where
  "run_menu parseFloat events s = fold (menu_step parseFloat) events s"

definition positive_quantities :: "SelectedFood list \<Rightarrow> bool" where
  "positive_quantities xs = list_all (\<lambda>item. 0 < quantity item) xs"

definition selected_names :: "SelectedFood list \<Rightarrow> string list" where
  "selected_names xs = map food_name xs"

text \<open>Some values of \<open>parseFloat\<close>, for the examples.\<close>

definition sample_parseFloat :: "string \<Rightarrow> real option" where
  "sample_parseFloat txt =
     (if txt = ''0'' then Some 0
      else if txt = ''0.5'' then Some (1 / 2)
      else if txt = ''2'' then Some 2
      else if txt = ''-1'' then Some (- 1)
      else None)"

subsection \<open>handleSendToKitchen\<close>

text \<open>The body of \<open>POST /send-to-kitchen\<close>.\<close>

record send_request =
  patient_id :: int
  meal_plan :: "meal_category \<Rightarrow> SelectedFood list"

text \<open>
  The result is the new state and the request that was issued, if one was. The server's
  reply is the first argument; \<open>!selectedPatient\<close> holds for \<open>null\<close> and for \<open>0\<close>.
\<close>

definition handleSendToKitchen ::
  "(send_request \<Rightarrow> string response) \<Rightarrow> app_state \<Rightarrow> app_state \<times> send_request option" where
  "handleSendToKitchen server s =
     (if list_all (\<lambda>category. mealPlan s category = []) mealCategories
      then (s\<lparr>message := Text ''Meal plan is empty. Please add items before sending to kitchen.''\<rparr>, None)
      else
        (case selectedPatient s of
           None \<Rightarrow> (s\<lparr>message := Text ''Please select a patient.''\<rparr>, None)
         | Some p \<Rightarrow>
             (if p = 0 then (s\<lparr>message := Text ''Please select a patient.''\<rparr>, None)
              else
                (let request = \<lparr>patient_id = p, meal_plan = mealPlan s\<rparr> in
                 (case server request of
                    Ok msg \<Rightarrow> (s\<lparr>message := Text msg\<rparr>, Some request)
                  | NotOk detail \<Rightarrow> (s\<lparr>message := SendError detail\<rparr>, Some request)
                  | NetworkError err \<Rightarrow> (s\<lparr>message := SendNetworkError err\<rparr>, Some request))))))"

definition accepting_kitchen :: "send_request \<Rightarrow> string response" where
  "accepting_kitchen request = Ok ''Meal plan sent to kitchen''"

text \<open>Example states: two servings of rice for breakfast, without and with a patient.\<close>

definition breakfast_no_patient :: app_state where
  "breakfast_no_patient = handleAddToMeal ''Rice'' 2 Breakfast initial_state"

definition breakfast_for_patient :: app_state where
  "breakfast_for_patient = breakfast_no_patient\<lparr>selectedPatient := Some 7\<rparr>"

subsection \<open>Rendering of the calculation result\<close>

text \<open>
  The text of a table cell: a literal, or \<open>x.toFixed(digits)\<close> of a number (the decimal
  text of a number is left to the library).
\<close>

datatype cell = Literal string | ToFixed real nat

text \<open>\<open>amount !== null ? amount.toFixed(2) : 'N/A'\<close>, the same for a target and for a
  difference.\<close>

definition number_cell :: "real option \<Rightarrow> cell" where
  "number_cell amount = (case amount of Some a \<Rightarrow> ToFixed a 2 | None \<Rightarrow> Literal ''N/A'')"

text \<open>\<open>diff !== null ? (diff < 0 ? 'Deficit' : (diff > 0 ? 'Excess' : 'Meets Target')) : 'N/A'\<close>\<close>

definition status_text :: "real option \<Rightarrow> string" where
  "status_text diff =
     (case diff of
        Some d \<Rightarrow> (if d < 0 then ''Deficit'' else (if d > 0 then ''Excess'' else ''Meets Target''))
      | None \<Rightarrow> ''N/A'')"

text \<open>\<open>diff !== null ? (diff < 0 ? 'deficit' : 'excess') : ''\<close>, the row's CSS class.\<close>

definition row_class :: "real option \<Rightarrow> string" where
  "row_class diff =
     (case diff of Some d \<Rightarrow> (if d < 0 then ''deficit'' else ''excess'') | None \<Rightarrow> [])"

record total_row =
  total_nutrient :: string
  total_amount :: cell

record comparison_row =
  className :: string
  row_nutrient :: string
  difference :: cell
  status :: string

definition render_total_nutrients :: "(string \<times> real option) list \<Rightarrow> total_row list" where
  "render_total_nutrients totals =
     map (\<lambda>(nutrient, amount). \<lparr>total_nutrient = nutrient, total_amount = number_cell amount\<rparr>) totals"

definition render_comparison :: "(string \<times> real option) list \<Rightarrow> comparison_row list" where
  "render_comparison comparison =
     map (\<lambda>(nutrient, diff).
            \<lparr>className = row_class diff, row_nutrient = nutrient,
             difference = number_cell diff, status = status_text diff\<rparr>) comparison"

subsection \<open>handleCalculateNutrition\<close>

text \<open>The body of \<open>POST /calculate-nutrition\<close>.\<close>

record nutrition_request =
  selected_foods :: "SelectedFood list"
  requested_profile :: string

definition handleCalculateNutrition ::
  "(nutrition_request \<Rightarrow> CalculationResult response) \<Rightarrow> app_state \<Rightarrow> app_state" where
  "handleCalculateNutrition server s =
     (if selectedFoods s = [] then s\<lparr>message := Text ''Please select some food items for the menu.''\<rparr>
      else if selectedRdaProfile s = [] then s\<lparr>message := Text ''Please select an RDA profile.''\<rparr>
      else
        (case server \<lparr>selected_foods = selectedFoods s, requested_profile = selectedRdaProfile s\<rparr> of
           Ok data \<Rightarrow>
             s\<lparr>calculationResult := Some data, message := Text ''Nutritional calculation successful!''\<rparr>
         | NotOk detail \<Rightarrow> s\<lparr>message := CalculationError detail, calculationResult := None\<rparr>
         | NetworkError err \<Rightarrow> s\<lparr>message := CalculationNetworkError err, calculationResult := None\<rparr>))"

subsection \<open>The results section of the page\<close>

text \<open>
  \<open>{calculationResult && (<section className="calculation-results-section"> ...)}\<close>: with
  no result the page has no results section; with a result it lists the selected menu
  and shows the table of totals, the table of targets under the profile's name, the
  comparison table and the summary.
\<close>

record target_row =
  target_nutrient :: string
  target_amount :: cell

definition render_targets :: "(string \<times> real option) list \<Rightarrow> target_row list" where
  "render_targets rdaTargets =
     map (\<lambda>(nutrient, target). \<lparr>target_nutrient = nutrient, target_amount = number_cell target\<rparr>) rdaTargets"

record results_view =
  menu_list :: "MenuLine list"
  totals_table :: "total_row list"
  targets_heading :: string
  targets_table :: "target_row list"
  comparison_table :: "comparison_row list"
  summary_paragraph :: string

definition results_section :: "app_state \<Rightarrow> results_view option" where
  "results_section s =
     (case calculationResult s of
        None \<Rightarrow> None
      | Some r \<Rightarrow>
          Some \<lparr>menu_list = selected_menu r,
                totals_table = render_total_nutrients (total_nutrients r),
                targets_heading = rda_profile_name r,
                targets_table = render_targets (rda_targets r),
                comparison_table = render_comparison (nutrient_comparison r),
                summary_paragraph = final_summary r\<rparr>)"

text \<open>The invariant of the menu state: positive quantities in the selection and in every
  category of the meal plan, and no food name twice in the selection.\<close>

definition menu_invariant :: "app_state \<Rightarrow> bool" where
  "menu_invariant s \<longleftrightarrow>
     positive_quantities (selectedFoods s) \<and> distinct (selected_names (selectedFoods s))
     \<and> list_all (\<lambda>c. positive_quantities (mealPlan s c)) mealCategories"

definition sample_events :: "menu_event list" where
  "sample_events =
     [FoodQuantityChange ''Rice'' ''0.5'', AddToMeal ''Rice'' (1 / 2) Breakfast,
      FoodQuantityChange ''Dal'' ''2'']"

section \<open>The computation engine behind \<open>/calculate-nutrition\<close>\<close>

text \<open>
  The planner posts the menu to \<open>/calculate-nutrition\<close>; the aggregator and the comparator
  that answer it are server code that is not among the sources. They are modelled here
  from sections 3, 4.1, 4.3, 4.4 and 6 of the specification.
\<close>

text \<open>Modelled from the spec: FoodRecord of section 3 (the server's food table is missing):
  a name, a serving-size label and a mapping from nutrient name to per-serving amount, in
  which an absent nutrient is unknown.\<close>

record FoodRecord =
  FoodName :: string
  ServingSize :: string
  nutrients :: "(string \<times> real) list"

text \<open>Modelled from the spec: RDAProfile of section 3 (the server's profile table is
  missing): a name and a mapping from nutrient name to target amount.\<close>

record RDAProfile =
  ProfileName :: string
  targets :: "(string \<times> real) list"

text \<open>Modelled from the spec: the two fatal errors of section 7 that the missing
  aggregator and comparator report, each with the offending name.\<close>

datatype api_error = FoodNotFoundError string | ProfileNotFoundError string

text \<open>Modelled from the spec: the case-insensitive match of the missing Catalog Store
  (section 4.1), as lower-casing of the ASCII letters.\<close>

definition lower_char :: "char \<Rightarrow> char" where
  "lower_char c =
     (case map_of (zip ''ABCDEFGHIJKLMNOPQRSTUVWXYZ'' ''abcdefghijklmnopqrstuvwxyz'') c of
        Some l \<Rightarrow> l
      | None \<Rightarrow> c)"

text \<open>Modelled from the spec: the same match of the missing Catalog Store, on a whole
  name.\<close>

definition lower_case :: "string \<Rightarrow> string" where
  "lower_case txt = map lower_char txt"

text \<open>Modelled from the spec: \<open>getFood(name) -> FoodRecord | not-found\<close> of the missing
  Catalog Store, case-insensitive on the name.\<close>

definition getFood :: "FoodRecord list \<Rightarrow> string \<Rightarrow> FoodRecord option" where
  "getFood catalog foodName = find (\<lambda>food. lower_case (FoodName food) = lower_case foodName) catalog"

text \<open>Modelled from the spec: \<open>getProfile(name) -> RDAProfile | not-found\<close> of the missing
  Catalog Store.\<close>

definition getProfile :: "RDAProfile list \<Rightarrow> string \<Rightarrow> RDAProfile option" where
  "getProfile profiles profileName =
     find (\<lambda>profile. lower_case (ProfileName profile) = lower_case profileName) profiles"

text \<open>Modelled from the spec: the first step of the missing \<open>aggregate\<close> (section 4.3):
  each line of the menu is resolved in the catalog, and a name that is not found fails
  the entire call with \<open>FoodNotFoundError{foodName}\<close>.\<close>

fun resolve :: "FoodRecord list \<Rightarrow> SelectedFood list \<Rightarrow> api_error + (SelectedFood \<times> FoodRecord) list" where
  "resolve catalog [] = Inr []"
| "resolve catalog (item # rest) =
     (case getFood catalog (food_name item) of
        None \<Rightarrow> Inl (FoodNotFoundError (food_name item))
      | Some food \<Rightarrow>
          (case resolve catalog rest of
             Inl e \<Rightarrow> Inl e
           | Inr resolved \<Rightarrow> Inr ((item, food) # resolved)))"

text \<open>Modelled from the spec: the contribution of a resolved food to a nutrient in the
  missing \<open>aggregate\<close>, \<open>perServingAmount * quantity\<close>, unknown when the food has no value
  for the nutrient.\<close>

definition contribution :: "string \<Rightarrow> SelectedFood \<times> FoodRecord \<Rightarrow> real option" where
  "contribution nutrient line =
     map_option (\<lambda>perServingAmount. perServingAmount * quantity (fst line))
       (map_of (nutrients (snd line)) nutrient)"

text \<open>Modelled from the spec: the summation of the missing \<open>aggregate\<close>: the sum of the
  contributions, and \<open>null\<close> as soon as one contribution is unknown.\<close>

fun sum_known :: "real option list \<Rightarrow> real option" where
  "sum_known [] = Some 0"
| "sum_known (c # cs) =
     (case c of
        None \<Rightarrow> None
      | Some a \<Rightarrow> (case sum_known cs of None \<Rightarrow> None | Some b \<Rightarrow> Some (a + b)))"

text \<open>Modelled from the spec: the total of one nutrient over the resolved menu in the
  missing \<open>aggregate\<close>.\<close>

definition nutrient_total :: "(SelectedFood \<times> FoodRecord) list \<Rightarrow> string \<Rightarrow> real option" where
  "nutrient_total resolved nutrient = sum_known (map (contribution nutrient) resolved)"

text \<open>Modelled from the spec: the nutrients that the totals of the missing \<open>aggregate\<close>
  cover, those of the resolved foods in the order of their first occurrence (the
  scenario of section 8 totals calories, protein and fiber).\<close>

definition nutrient_names :: "(SelectedFood \<times> FoodRecord) list \<Rightarrow> string list" where
  "nutrient_names resolved =
     rev (remdups (rev (concat (map (\<lambda>line. map fst (nutrients (snd line))) resolved))))"

text \<open>Modelled from the spec: \<open>totals\<close> of the missing \<open>aggregate\<close>, one entry for each
  of these nutrients.\<close>

definition totals_of :: "(SelectedFood \<times> FoodRecord) list \<Rightarrow> (string \<times> real option) list" where
  "totals_of resolved = map (\<lambda>nutrient. (nutrient, nutrient_total resolved nutrient)) (nutrient_names resolved)"

text \<open>Modelled from the spec: \<open>resolvedItems\<close> of the missing \<open>aggregate\<close>, each menu line
  with its serving-size label.\<close>

definition menu_line :: "SelectedFood \<times> FoodRecord \<Rightarrow> MenuLine" where
  "menu_line line =
     \<lparr>food_name = food_name (fst line), quantity = quantity (fst line),
      serving_size = ServingSize (snd line)\<rparr>"

text \<open>Modelled from the spec: \<open>aggregate(menu) -> (resolvedItems, totals) | FoodNotFoundError\<close>
  of section 4.3, the missing Nutrition Aggregator.\<close>

definition aggregate ::
  "FoodRecord list \<Rightarrow> SelectedFood list \<Rightarrow> api_error + MenuLine list \<times> (string \<times> real option) list" where
  "aggregate catalog menu =
     (case resolve catalog menu of
        Inl e \<Rightarrow> Inl e
      | Inr resolved \<Rightarrow> Inr (map menu_line resolved, totals_of resolved))"

text \<open>Modelled from the spec: the total that the missing comparator reads for a nutrient,
  unknown when the total is \<open>null\<close> or absent.\<close>

definition known_total :: "(string \<times> real option) list \<Rightarrow> string \<Rightarrow> real option" where
  "known_total totals nutrient =
     (case map_of totals nutrient of Some (Some amount) \<Rightarrow> Some amount | _ \<Rightarrow> None)"

text \<open>Modelled from the spec: one nutrient of the missing \<open>compare\<close> (section 4.4): \<open>null\<close>
  when the total is unknown, otherwise \<open>total - target\<close>.\<close>

definition compare_nutrient :: "(string \<times> real option) list \<Rightarrow> string \<times> real \<Rightarrow> string \<times> real option" where
  "compare_nutrient totals entry =
     (fst entry,
      (case known_total totals (fst entry) of
         None \<Rightarrow> None
       | Some amount \<Rightarrow> Some (amount - snd entry)))"

text \<open>Modelled from the spec: the nutrients that the missing comparator reports beyond
  those of the profile. Section 4.4 compares each nutrient present in the profile; the
  scenario of section 8 also reports fiber, whose total is \<open>null\<close> and which the profile
  does not name, as \<open>null\<close>. So a nutrient of the totals that is \<open>null\<close> and not in the
  profile is reported as \<open>null\<close>.\<close>

definition undetermined_rest ::
  "(string \<times> real option) list \<Rightarrow> (string \<times> real) list \<Rightarrow> (string \<times> real option) list" where
  "undetermined_rest totals profileTargets =
     map (\<lambda>entry. (fst entry, None))
       (filter (\<lambda>entry. snd entry = None \<and> fst entry \<notin> set (map fst profileTargets)) totals)"

text \<open>Modelled from the spec: \<open>compare(totals, profileName) -> ComparisonReport |
  ProfileNotFoundError\<close> of section 4.4, the missing RDA Comparator: the nutrients of the
  profile, then the unknown totals that the profile does not name.\<close>

definition compare ::
  "RDAProfile list \<Rightarrow> (string \<times> real option) list \<Rightarrow> string
     \<Rightarrow> api_error + RDAProfile \<times> (string \<times> real option) list" where
  "compare profiles totals profileName =
     (case getProfile profiles profileName of
        None \<Rightarrow> Inl (ProfileNotFoundError profileName)
      | Some profile \<Rightarrow>
          Inr (profile,
               map (compare_nutrient totals) (targets profile)
                 @ undetermined_rest totals (targets profile)))"

text \<open>Modelled from the spec: the four classes of the missing comparator's report and the
  counts of them, from which the summary line is produced.\<close>

datatype nutrient_status = Deficit | Excess | MeetsTarget | NotDeterminable

text \<open>Modelled from the spec: the class of one comparison value in the missing
  comparator: negative is a deficit, positive an excess, zero an exact match, \<open>null\<close>
  not determinable.\<close>

definition classify :: "real option \<Rightarrow> nutrient_status" where
  "classify diff =
     (case diff of
        None \<Rightarrow> NotDeterminable
      | Some d \<Rightarrow> (if d < 0 then Deficit else if 0 < d then Excess else MeetsTarget))"

text \<open>Modelled from the spec: the classification counts of the missing comparator.\<close>

definition count_status :: "nutrient_status \<Rightarrow> (string \<times> real option) list \<Rightarrow> nat" where
  "count_status st comparison = length (filter (\<lambda>entry. classify (snd entry) = st) comparison)"

text \<open>Modelled from the spec: the combined report of section 6 that the missing request
  handler returns for a menu and a profile name. The wording of the summary line is not
  specified; it is a parameter, applied to the four classification counts.\<close>

definition calculate_nutrition ::
  "(nat \<Rightarrow> nat \<Rightarrow> nat \<Rightarrow> nat \<Rightarrow> string) \<Rightarrow> FoodRecord list \<Rightarrow> RDAProfile list
     \<Rightarrow> nutrition_request \<Rightarrow> api_error + CalculationResult" where
  "calculate_nutrition summary_line catalog profiles request =
     (case aggregate catalog (selected_foods request) of
        Inl e \<Rightarrow> Inl e
      | Inr (resolvedItems, totals) \<Rightarrow>
          (case compare profiles totals (requested_profile request) of
             Inl e \<Rightarrow> Inl e
           | Inr (profile, comparison) \<Rightarrow>
               Inr \<lparr>selected_menu = resolvedItems,
                    total_nutrients = totals,
                    rda_profile_name = ProfileName profile,
                    rda_targets = map (\<lambda>entry. (fst entry, Some (snd entry))) (targets profile),
                    nutrient_comparison = comparison,
                    final_summary =
                      summary_line (count_status Deficit comparison) (count_status Excess comparison)
                        (count_status MeetsTarget comparison) (count_status NotDeterminable comparison)\<rparr>))"

text \<open>Modelled from the spec: the reply of the missing endpoint, an error reply with a
  detail text for a fatal error (the wording of the detail is a parameter) and the
  report otherwise.\<close>

definition nutrition_endpoint ::
  "(api_error \<Rightarrow> string) \<Rightarrow> (nat \<Rightarrow> nat \<Rightarrow> nat \<Rightarrow> nat \<Rightarrow> string) \<Rightarrow> FoodRecord list \<Rightarrow> RDAProfile list
     \<Rightarrow> nutrition_request \<Rightarrow> CalculationResult response" where
  "nutrition_endpoint detail summary_line catalog profiles request =
     (case calculate_nutrition summary_line catalog profiles request of
        Inl e \<Rightarrow> NotOk (detail e)
      | Inr result \<Rightarrow> Ok result)"

subsection \<open>The conditions of the linearity claim\<close>

text \<open>The menu with every quantity multiplied by 2, and the same on resolved lines.\<close>

definition double_quantities :: "SelectedFood list \<Rightarrow> SelectedFood list" where
  "double_quantities menu = map (\<lambda>item. item\<lparr>quantity := 2 * quantity item\<rparr>) menu"

definition double_line :: "SelectedFood \<times> FoodRecord \<Rightarrow> SelectedFood \<times> FoodRecord" where
  "double_line line = ((fst line)\<lparr>quantity := 2 * quantity (fst line)\<rparr>, snd line)"

text \<open>A menu over the catalog in which every selected food has a known value for every
  nutrient that the totals cover.\<close>

definition complete_data :: "FoodRecord list \<Rightarrow> SelectedFood list \<Rightarrow> bool" where
  "complete_data catalog menu =
     (case resolve catalog menu of
        Inl e \<Rightarrow> False
      | Inr resolved \<Rightarrow>
          list_all (\<lambda>line. list_all (\<lambda>nutrient. map_of (nutrients (snd line)) nutrient \<noteq> None)
                             (nutrient_names resolved)) resolved)"

subsection \<open>The scenario of section 8, as example data\<close>

definition rice :: FoodRecord where
  "rice = \<lparr>FoodName = ''Rice'', ServingSize = ''1 cup'',
     nutrients = [(''calories'', 200), (''protein'', 4)]\<rparr>"

definition dal :: FoodRecord where
  "dal = \<lparr>FoodName = ''Dal'', ServingSize = ''1 bowl'',
     nutrients = [(''calories'', 150), (''protein'', 9), (''fiber'', 3)]\<rparr>"

definition adult_male :: RDAProfile where
  "adult_male = \<lparr>ProfileName = ''Adult-Male'', targets = [(''calories'', 2000), (''protein'', 50)]\<rparr>"

definition rice_and_dal :: "SelectedFood list" where
  "rice_and_dal = [\<lparr>food_name = ''Rice'', quantity = 2\<rparr>, \<lparr>food_name = ''Dal'', quantity = 1\<rparr>]"

definition rice_and_soup :: "SelectedFood list" where
  "rice_and_soup = [\<lparr>food_name = ''Rice'', quantity = 2\<rparr>, \<lparr>food_name = ''Soup'', quantity = 1\<rparr>]"

definition rice_only :: "SelectedFood list" where
  "rice_only = [\<lparr>food_name = ''Rice'', quantity = 3 / 2\<rparr>, \<lparr>food_name = ''rice'', quantity = 1\<rparr>]"

definition sample_detail :: "api_error \<Rightarrow> string" where
  "sample_detail e =
     (case e of
        FoodNotFoundError foodName \<Rightarrow> ''Food not found: '' @ foodName
      | ProfileNotFoundError profileName \<Rightarrow> ''RDA profile not found: '' @ profileName)"

definition sample_summary :: "nat \<Rightarrow> nat \<Rightarrow> nat \<Rightarrow> nat \<Rightarrow> string" where
  "sample_summary deficits excesses exact unknown =
     (if deficits = 0 \<and> excesses = 0 then ''All targets met.'' else ''Some targets missed.'')"

definition stale_result :: CalculationResult where
  "stale_result =
     \<lparr>selected_menu = [], total_nutrients = [(''calories'', Some 550)],
      rda_profile_name = ''Adult-Male'', rda_targets = [(''calories'', Some 2000)],
      nutrient_comparison = [(''calories'', Some (- 1450))], final_summary = ''Some targets missed.''\<rparr>"

text \<open>A planner that still shows an earlier result and now has soup, which the catalog
  does not hold, on the menu.\<close>

definition soup_state :: app_state where
  "soup_state = initial_state\<lparr>selectedFoods := rice_and_soup, selectedRdaProfile := ''Adult-Male'',
     calculationResult := Some stale_result\<rparr>"

text \<open>The planner of the scenario before the calculation, and the report that the
  scenario expects.\<close>

definition dal_state :: app_state where
  "dal_state = initial_state\<lparr>selectedFoods := rice_and_dal, selectedRdaProfile := ''Adult-Male''\<rparr>"

definition scenario_result :: CalculationResult where
  "scenario_result =
     \<lparr>selected_menu = [\<lparr>food_name = ''Rice'', quantity = 2, serving_size = ''1 cup''\<rparr>,
                       \<lparr>food_name = ''Dal'', quantity = 1, serving_size = ''1 bowl''\<rparr>],
      total_nutrients = [(''calories'', Some 550), (''protein'', Some 17), (''fiber'', None)],
      rda_profile_name = ''Adult-Male'',
      rda_targets = [(''calories'', Some 2000), (''protein'', Some 50)],
      nutrient_comparison = [(''calories'', Some (- 1450)), (''protein'', Some (- 33)), (''fiber'', None)],
      final_summary = ''Some targets missed.''\<rparr>"

section \<open>Creation of a meal plan behind \<open>/send-to-kitchen\<close>\<close>

text \<open>
  The planner posts the patient's id and the meal plan to \<open>/send-to-kitchen\<close>; the
  Lifecycle Manager that answers it is server code that is not among the sources. Its
  \<open>createPlan\<close> is modelled here from sections 3, 4.5 and 6 of the specification.
\<close>

text \<open>Modelled from the spec: MealPlan of section 3 as the missing Lifecycle Manager
  stores it: generated id, patient reference (nullable), creation timestamp, items.\<close>

record StoredPlan =
  stored_id :: int
  stored_patient :: "int option"
  stored_timestamp :: string
  stored_items :: "MealPlanItem list"

text \<open>Modelled from the spec: what the missing server supplies at a creation: the
  generated id of the plan, the timestamp, the generated id of the k-th new item, and
  the wording of its two replies, which the specification leaves open.\<close>

record creation =
  new_plan_id :: int
  creation_time :: string
  new_item_id :: "nat \<Rightarrow> int"
  created_message :: string
  rejected_detail :: string

text \<open>Modelled from the spec: the items of \<open>itemsByCategory\<close> for the missing
  \<open>createPlan\<close>, every entry of every one of the five categories with its category.\<close>

definition plan_lines :: "(meal_category \<Rightarrow> SelectedFood list) \<Rightarrow> (meal_category \<times> SelectedFood) list" where
  "plan_lines itemsByCategory =
     concat (map (\<lambda>category. map (Pair category) (itemsByCategory category)) mealCategories)"

text \<open>Modelled from the spec: a MealPlanItem as the missing \<open>createPlan\<close> creates it,
  with both flags false.\<close>

definition new_item :: "int \<Rightarrow> meal_category \<times> SelectedFood \<Rightarrow> MealPlanItem" where
  "new_item ident line =
     \<lparr>item_id = ident, meal_category = fst line, item_food_name = food_name (snd line),
      item_quantity = quantity (snd line), prepared = False, delivered = False\<rparr>"

text \<open>Modelled from the spec: \<open>createPlan(patientId, itemsByCategory) -> MealPlan\<close> of
  section 4.5, missing from the sources: it creates the plan and all items at once and
  rejects (\<open>None\<close>) if every category is empty.\<close>

definition createPlan ::
  "creation \<Rightarrow> int \<Rightarrow> (meal_category \<Rightarrow> SelectedFood list) \<Rightarrow> StoredPlan option" where
  "createPlan gen patientId itemsByCategory =
     (if list_all (\<lambda>category. itemsByCategory category = []) mealCategories then None
      else
        Some \<lparr>stored_id = new_plan_id gen, stored_patient = Some patientId,
              stored_timestamp = creation_time gen,
              stored_items =
                map (\<lambda>(k, line). new_item (new_item_id gen k) line)
                  (enumerate 0 (plan_lines itemsByCategory))\<rparr>)"

text \<open>Modelled from the spec: the missing endpoint, which answers a request with
  \<open>createPlan\<close> on the stored plans.\<close>

definition send_to_kitchen_endpoint ::
  "creation \<Rightarrow> StoredPlan list \<Rightarrow> send_request \<Rightarrow> string response \<times> StoredPlan list" where
  "send_to_kitchen_endpoint gen plans request =
     (case createPlan gen (patient_id request) (meal_plan request) of
        None \<Rightarrow> (NotOk (rejected_detail gen), plans)
      | Some plan \<Rightarrow> (Ok (created_message gen), plans @ [plan]))"

text \<open>
  The planner's handler against this endpoint: the handler gets the endpoint's reply,
  and the request that it issues, if it issues one, changes the stored plans.
\<close>

definition send_plan :: "creation \<Rightarrow> StoredPlan list \<Rightarrow> app_state \<Rightarrow> app_state \<times> StoredPlan list" where
  "send_plan gen plans s =
     (case handleSendToKitchen (\<lambda>request. fst (send_to_kitchen_endpoint gen plans request)) s of
        (s', None) \<Rightarrow> (s', plans)
      | (s', Some request) \<Rightarrow> (s', snd (send_to_kitchen_endpoint gen plans request)))"

text \<open>What a stored item says of the plan: its category, food name and quantity.\<close>

definition item_line :: "MealPlanItem \<Rightarrow> meal_category \<times> SelectedFood" where
  "item_line item =
     (meal_category item, \<lparr>food_name = item_food_name item, quantity = item_quantity item\<rparr>)"

definition sample_creation :: creation where
  "sample_creation =
     \<lparr>new_plan_id = 12, creation_time = ''2025-01-02T07:30:00'', new_item_id = (\<lambda>k. 100 + int k),
      created_message = ''Meal plan sent to kitchen'', rejected_detail = ''Meal plan is empty''\<rparr>"

definition breakfast_patient_zero :: app_state where
  "breakfast_patient_zero = breakfast_no_patient\<lparr>selectedPatient := Some 0\<rparr>"

section \<open>Properties of the kitchen dashboard\<close>

subsection \<open>The summary partitions the items\<close>

lemma mset_filter_split:
  "mset (map f (filter P xs)) + mset (map f (filter (\<lambda>x. \<not> P x) xs)) = mset (map f xs)"
  by (induction xs) auto

lemma mset_flatMap_split:
  "mset (flatMap (\<lambda>p. map (f p) (filter P (g p))) ps)
     + mset (flatMap (\<lambda>p. map (f p) (filter (\<lambda>x. \<not> P x) (g p))) ps)
   = mset (flatMap (\<lambda>p. map (f p) (g p)) ps)"
proof (induction ps)
  case Nil
  show ?case by (simp add: flatMap_def)
next
  case (Cons p ps)
  have "mset (map (f p) (filter P (g p))) + mset (map (f p) (filter (\<lambda>x. \<not> P x) (g p)))
          = mset (map (f p) (g p))"
    by (rule mset_filter_split)
  with Cons show ?case
    by (simp add: flatMap_def ac_simps)
qed

lemma length_allEntries: "length (allEntries ps) = length (allItems ps)"
  by (induction ps) (simp_all add: allEntries_def allItems_def flatMap_def)

text \<open>
  C10. The prepared and the unprepared entries together are exactly the entries of all
  items of all plans, each as often as it occurs (an equation of multisets), and so are
  the delivered and the not-delivered entries; hence the two counts of each pair add up
  to the number of items across all plans.
\<close>

theorem summary_partitions_items:
  "mset (preparedItems ps) + mset (unpreparedItems ps) = mset (allEntries ps)
   \<and> mset (deliveredItems ps) + mset (notDeliveredItems ps) = mset (allEntries ps)
   \<and> length (preparedItems ps) + length (unpreparedItems ps) = length (allItems ps)
   \<and> length (deliveredItems ps) + length (notDeliveredItems ps) = length (allItems ps)"
proof -
  have p: "mset (preparedItems ps) + mset (unpreparedItems ps) = mset (allEntries ps)"
    unfolding preparedItems_def unpreparedItems_def allEntries_def
    by (rule mset_flatMap_split)
  have d: "mset (deliveredItems ps) + mset (notDeliveredItems ps) = mset (allEntries ps)"
    unfolding deliveredItems_def notDeliveredItems_def allEntries_def
    by (rule mset_flatMap_split)
  have "size (mset (preparedItems ps) + mset (unpreparedItems ps)) = size (mset (allEntries ps))"
    by (simp only: p)
  then have pl: "length (preparedItems ps) + length (unpreparedItems ps) = length (allItems ps)"
    by (simp add: length_allEntries)
  have "size (mset (deliveredItems ps) + mset (notDeliveredItems ps)) = size (mset (allEntries ps))"
    by (simp only: d)
  then have dl: "length (deliveredItems ps) + length (notDeliveredItems ps) = length (allItems ps)"
    by (simp add: length_allEntries)
  from p d pl dl show ?thesis by simp
qed

subsection \<open>The time view\<close>

lemma push_grouped_mset:
  "mset (concat (map snd (push_grouped c x g))) = add_mset x (mset (concat (map snd g)))"
  by (induction c x g rule: push_grouped.induct) simp_all

lemma push_grouped_keys:
  "map fst (push_grouped c x g) = (if c \<in> fst ` set g then map fst g else map fst g @ [c])"
  by (induction c x g rule: push_grouped.induct) auto

lemma push_grouped_distinct:
  "distinct (map fst g) \<Longrightarrow> distinct (map fst (push_grouped c x g))"
  by (simp add: push_grouped_keys)

lemma push_grouped_well_keyed:
  "well_keyed g \<Longrightarrow> meal_category x = c \<Longrightarrow> well_keyed (push_grouped c x g)"
  by (induction c x g rule: push_grouped.induct) (auto simp: well_keyed_def)

lemma fold_push_mset:
  "mset (concat (map snd (fold (\<lambda>item. push_grouped (meal_category item) (with_patient p item)) xs g)))
     = mset (map (with_patient p) xs) + mset (concat (map snd g))"
  by (induction xs arbitrary: g) (simp_all add: push_grouped_mset)

lemma fold_push_distinct:
  "distinct (map fst g) \<Longrightarrow>
   distinct (map fst (fold (\<lambda>item. push_grouped (meal_category item) (with_patient p item)) xs g))"
  by (induction xs arbitrary: g) (simp_all add: push_grouped_distinct)

lemma meal_category_with_patient: "meal_category (with_patient p item) = meal_category item"
  by (simp add: with_patient_def)

lemma fold_push_well_keyed:
  "well_keyed g \<Longrightarrow>
   well_keyed (fold (\<lambda>item. push_grouped (meal_category item) (with_patient p item)) xs g)"
  by (induction xs arbitrary: g)
     (simp_all add: push_grouped_well_keyed meal_category_with_patient)

lemma group_plan_mset:
  "mset (concat (map snd (group_plan plan g)))
     = mset (time_view_items plan) + mset (concat (map snd g))"
  by (simp add: group_plan_def time_view_items_def fold_push_mset split: option.split)

lemma group_plan_distinct: "distinct (map fst g) \<Longrightarrow> distinct (map fst (group_plan plan g))"
  by (simp add: group_plan_def fold_push_distinct split: option.split)

lemma group_plan_well_keyed: "well_keyed g \<Longrightarrow> well_keyed (group_plan plan g)"
  by (simp add: group_plan_def fold_push_well_keyed split: option.split)

lemma fold_group_plan_mset:
  "mset (concat (map snd (fold group_plan ps g)))
     = mset (flatMap time_view_items ps) + mset (concat (map snd g))"
  by (induction ps arbitrary: g) (simp_all add: flatMap_def group_plan_mset ac_simps)

lemma fold_group_plan_distinct:
  "distinct (map fst g) \<Longrightarrow> distinct (map fst (fold group_plan ps g))"
  by (induction ps arbitrary: g) (simp_all add: group_plan_distinct)

lemma fold_group_plan_well_keyed: "well_keyed g \<Longrightarrow> well_keyed (fold group_plan ps g)"
  by (induction ps arbitrary: g) (simp_all add: group_plan_well_keyed)

lemma fold_group_plan_filter:
  "fold group_plan (filter (\<lambda>plan. patient plan \<noteq> None) ps) g = fold group_plan ps g"
  by (induction ps arbitrary: g) (auto simp: group_plan_def)

text \<open>
  C9. The entries of all category groups of the time view are exactly the items of the
  plans that have a patient, each once (an equation of multisets in which a plan without
  a patient contributes nothing); dropping the plans without a patient does not change
  the view; every category has at most one group, no group is empty, and every entry
  lies in the group of its own meal category.
\<close>

theorem groupedMealItems_patient_plans_only:
  "mset (concat (map snd (groupedMealItems ps))) = mset (flatMap time_view_items ps)
   \<and> groupedMealItems (filter (\<lambda>plan. patient plan \<noteq> None) ps) = groupedMealItems ps
   \<and> distinct (map fst (groupedMealItems ps))
   \<and> (\<forall>(c, xs) \<in> set (groupedMealItems ps). xs \<noteq> [] \<and> (\<forall>e \<in> set xs. meal_category e = c))"
proof -
  have m: "mset (concat (map snd (groupedMealItems ps))) = mset (flatMap time_view_items ps)"
    by (simp add: groupedMealItems_def fold_group_plan_mset)
  have f: "groupedMealItems (filter (\<lambda>plan. patient plan \<noteq> None) ps) = groupedMealItems ps"
    unfolding groupedMealItems_def by (rule fold_group_plan_filter)
  have d: "distinct (map fst (groupedMealItems ps))"
    by (simp add: groupedMealItems_def fold_group_plan_distinct)
  have "well_keyed (groupedMealItems ps)"
    unfolding groupedMealItems_def
    by (rule fold_group_plan_well_keyed) (simp add: well_keyed_def)
  then have w: "\<forall>(c, xs) \<in> set (groupedMealItems ps). xs \<noteq> [] \<and> (\<forall>e \<in> set xs. meal_category e = c)"
    by (auto simp: well_keyed_def list_all_iff)
  from m f d w show ?thesis by blast
qed

theorem groupedMealItems_patient_plans_only_witness:
  "groupedMealItems [asha_plan, orphan_plan]
     = [(Breakfast, [with_patient asha rice_item]), (Lunch, [with_patient asha dal_item])]
   \<and> time_view_items orphan_plan = []
   \<and> mset (concat (map snd (groupedMealItems [asha_plan, orphan_plan])))
       = mset (flatMap time_view_items [asha_plan, orphan_plan])
   \<and> groupedMealItems [asha_plan] = groupedMealItems [asha_plan, orphan_plan]
   \<and> meal_category (with_patient asha rice_item) = Breakfast
   \<and> meal_category (with_patient asha dal_item) = Lunch"
  using groupedMealItems_patient_plans_only [of "[asha_plan, orphan_plan]"]
  by (simp add: groupedMealItems_def group_plan_def time_view_items_def asha_plan_def
      orphan_plan_def rice_item_def dal_item_def with_patient_def)

subsection \<open>Status updates\<close>

lemma update_item_idem:
  "update_item i t b (update_item i t b item) = update_item i t b item"
  by (cases t) (simp_all add: update_item_def)

text \<open>
  C1 (as the code has it). An accepted status update sets the one flag it names to the
  requested value and leaves the other flag of the item as it was; nothing couples the
  two flags.
\<close>

theorem status_update_sets_named_flag_only:
  "prepared (markDelivered item) = prepared item \<and> delivered (markDelivered item) = True
   \<and> prepared (markNotDelivered item) = prepared item \<and> delivered (markNotDelivered item) = False
   \<and> prepared (markPrepared item) = True \<and> delivered (markPrepared item) = delivered item
   \<and> prepared (markUnprepared item) = False \<and> delivered (markUnprepared item) = delivered item"
  by (simp add: markDelivered_def markNotDelivered_def markPrepared_def markUnprepared_def
      update_item_def)

text \<open>
  C1 as stated fails: the Pending item 1 of the example dashboard, after an accepted
  \<open>delivered = true\<close> update, is delivered and not prepared.
\<close>

theorem delivered_without_prepared_counterexample:
  "prepared rice_item = False \<and> delivered rice_item = False
   \<and> mealPlans (handleStatusChange (Ok ()) 1 DeliveredFlag True dashboard0)
       = [asha_plan\<lparr>items := [rice_item\<lparr>delivered := True\<rparr>, dal_item]\<rparr>, orphan_plan]
   \<and> prepared (rice_item\<lparr>delivered := True\<rparr>) = False
   \<and> delivered (rice_item\<lparr>delivered := True\<rparr>) = True"
  by (simp add: dashboard0_def asha_plan_def orphan_plan_def rice_item_def dal_item_def
      soup_item_def update_item_def)

text \<open>
  C7. Marking an item prepared twice, both updates accepted, leaves the dashboard in the
  state the first update produced; the update on an item that is already prepared
  changes nothing; and an accepted update records no error.
\<close>

theorem markPrepared_idempotent:
  "handleStatusChange (Ok u) itemId PreparedFlag True
       (handleStatusChange (Ok v) itemId PreparedFlag True s)
     = handleStatusChange (Ok v) itemId PreparedFlag True s
   \<and> error (handleStatusChange (Ok v) itemId PreparedFlag True s) = error s
   \<and> markPrepared (markPrepared item) = markPrepared item
   \<and> (prepared item \<longrightarrow> markPrepared item = item)"
proof -
  have "(\<lambda>plan. plan\<lparr>items := map (update_item itemId PreparedFlag True) (items plan)\<rparr>)
          \<circ> (\<lambda>plan. plan\<lparr>items := map (update_item itemId PreparedFlag True) (items plan)\<rparr>)
        = (\<lambda>plan::MealPlan. plan\<lparr>items := map (update_item itemId PreparedFlag True) (items plan)\<rparr>)"
    by (rule ext) (simp add: comp_def update_item_idem)
  then have a: "handleStatusChange (Ok u) itemId PreparedFlag True
       (handleStatusChange (Ok v) itemId PreparedFlag True s)
     = handleStatusChange (Ok v) itemId PreparedFlag True s"
    by simp
  have b: "error (handleStatusChange (Ok v) itemId PreparedFlag True s) = error s"
    by simp
  have c: "markPrepared (markPrepared item) = markPrepared item"
    by (simp add: markPrepared_def update_item_def)
  have d: "prepared item \<longrightarrow> markPrepared item = item"
    by (simp add: markPrepared_def update_item_def)
  from a b c d show ?thesis by simp
qed

theorem markPrepared_idempotent_witness:
  "prepared dal_item \<and> markPrepared dal_item = dal_item
   \<and> handleStatusChange (Ok ()) 2 PreparedFlag True
       (handleStatusChange (Ok ()) 2 PreparedFlag True dashboard0) = dashboard0"
  using markPrepared_idempotent [of "()" 2 "()" dashboard0 dal_item]
  by (simp add: dashboard0_def asha_plan_def orphan_plan_def rice_item_def dal_item_def
      soup_item_def update_item_def)

section \<open>Properties of the planner\<close>

subsection \<open>Menu selection\<close>

lemma findIndex_Some:
  "findIndex P xs = Some i \<Longrightarrow> i < length xs \<and> P (xs ! i)"
  by (induction xs arbitrary: i) (auto split: if_splits)

lemma findIndex_None: "findIndex P xs = None \<Longrightarrow> x \<in> set xs \<Longrightarrow> \<not> P x"
  by (induction xs) (auto split: if_splits)

lemma find_findIndex:
  "find P xs = (case findIndex P xs of None \<Rightarrow> None | Some i \<Rightarrow> Some (xs ! i))"
  by (induction xs) (auto split: option.splits)

lemma positive_update:
  "positive_quantities xs \<Longrightarrow> 0 < q \<Longrightarrow> positive_quantities (xs[i := (xs ! i)\<lparr>quantity := q\<rparr>])"
  unfolding positive_quantities_def list_all_iff
  by (auto dest: set_update_subset_insert [THEN subsetD])

lemma positive_splice1: "positive_quantities xs \<Longrightarrow> positive_quantities (splice1 i xs)"
  unfolding positive_quantities_def list_all_iff splice1_def
  by (auto dest: in_set_takeD in_set_dropD)

lemma positive_append:
  "positive_quantities xs \<Longrightarrow> 0 < q \<Longrightarrow> positive_quantities (xs @ [\<lparr>food_name = n, quantity = q\<rparr>])"
  by (simp add: positive_quantities_def)

lemma change_quantity_positive:
  "positive_quantities xs \<Longrightarrow> 0 \<le> q \<Longrightarrow> positive_quantities (change_quantity n q xs)"
  by (auto simp: change_quantity_def positive_update positive_splice1 positive_append
      split: option.split)

lemma add_to_category_positive:
  "positive_quantities xs \<Longrightarrow> 0 < q \<Longrightarrow> positive_quantities (add_to_category n q xs)"
  by (auto simp: add_to_category_def positive_update positive_append split: option.split)

lemma names_update:
  "i < length xs \<Longrightarrow> selected_names (xs[i := (xs ! i)\<lparr>quantity := q\<rparr>]) = selected_names xs"
  by (simp add: selected_names_def map_update list_update_same_conv)

lemma splice1_names:
  assumes "distinct (selected_names xs)" and "i < length xs"
  shows "distinct (selected_names (splice1 i xs)) \<and> food_name (xs ! i) \<notin> set (selected_names (splice1 i xs))"
proof -
  have "xs = take i xs @ xs ! i # drop (Suc i) xs"
    using assms(2) by (rule id_take_nth_drop)
  then have "selected_names xs
      = selected_names (take i xs) @ food_name (xs ! i) # selected_names (drop (Suc i) xs)"
    unfolding selected_names_def by (metis list.simps(9) map_append)
  with assms(1) show ?thesis
    by (auto simp: selected_names_def splice1_def)
qed

lemma change_quantity_distinct:
  assumes "distinct (selected_names xs)"
  shows "distinct (selected_names (change_quantity n q xs))"
proof (cases "findIndex (\<lambda>item. food_name item = n) xs")
  case None
  then have "n \<notin> set (selected_names xs)"
    by (auto simp: selected_names_def dest: findIndex_None)
  with assms None show ?thesis
    by (simp add: change_quantity_def selected_names_def)
next
  case (Some i)
  then have "i < length xs" by (simp add: findIndex_Some)
  with assms Some show ?thesis
    by (simp add: change_quantity_def names_update splice1_names)
qed

lemma change_quantity_zero_removes:
  assumes "distinct (selected_names xs)"
  shows "n \<notin> set (selected_names (change_quantity n 0 xs))"
proof (cases "findIndex (\<lambda>item. food_name item = n) xs")
  case None
  then have "n \<notin> set (selected_names xs)"
    by (auto simp: selected_names_def dest: findIndex_None)
  with None show ?thesis by (simp add: change_quantity_def)
next
  case (Some i)
  from findIndex_Some [OF Some] have i: "i < length xs" and n: "food_name (xs ! i) = n"
    by simp_all
  from splice1_names [OF assms i] n Some show ?thesis
    by (simp add: change_quantity_def)
qed

lemma all_categories: "list_all P mealCategories \<longleftrightarrow> (\<forall>c. P c)"
proof
  assume a: "list_all P mealCategories"
  show "\<forall>c. P c"
  proof
    fix c from a show "P c" by (cases c) (simp_all add: mealCategories_def)
  qed
next
  assume "\<forall>c. P c" then show "list_all P mealCategories" by (simp add: mealCategories_def)
qed

lemma menu_step_invariant: "menu_invariant s \<Longrightarrow> menu_invariant (menu_step pf e s)"
proof (cases e)
  case (FoodQuantityChange n qt)
  assume "menu_invariant s"
  with FoodQuantityChange show ?thesis
    by (auto simp: menu_invariant_def handleFoodQuantityChange_def change_quantity_positive
        change_quantity_distinct split: option.split)
next
  case (AddToMeal n q c)
  assume "menu_invariant s"
  with AddToMeal show ?thesis
    by (auto simp: menu_invariant_def handleAddToMeal_def all_categories add_to_category_positive)
qed

lemma run_menu_invariant: "menu_invariant s \<Longrightarrow> menu_invariant (run_menu pf evs s)"
  unfolding run_menu_def
  by (induction evs arbitrary: s) (simp_all add: menu_step_invariant)

lemma initial_invariant: "menu_invariant initial_state"
  by (simp add: menu_invariant_def initial_state_def positive_quantities_def selected_names_def
      mealCategories_def)

lemma change_quantity_lookup:
  "0 < q \<Longrightarrow> find (\<lambda>item. food_name item = n) (change_quantity n q xs)
     = Some ((case find (\<lambda>item. food_name item = n) xs of
               None \<Rightarrow> \<lparr>food_name = n, quantity = q\<rparr> | Some item \<Rightarrow> item\<lparr>quantity := q\<rparr>))"
  by (induction xs) (auto simp: change_quantity_def split: option.splits nat.splits)

text \<open>
  C6. In every state that the two menu handlers reach from the initial state, every entry
  of the selection and of every category of the meal plan has a quantity above 0. A
  quantity text that parses to 0 leaves no entry of that name in the selection; a text
  that parses to \<open>NaN\<close> or to a negative number leaves the state as it was, and so does a
  quantity of 0 or below for the meal plan; a positive quantity, fractional or not, is
  taken as the quantity of the food.
\<close>

theorem quantities_stay_positive:
  "positive_quantities (selectedFoods (run_menu pf evs initial_state))
   \<and> (\<forall>c. positive_quantities (mealPlan (run_menu pf evs initial_state) c))
   \<and> (pf zeroText = Some 0 \<longrightarrow>
        removedName \<notin> set (selected_names (selectedFoods
          (handleFoodQuantityChange pf removedName zeroText (run_menu pf evs initial_state)))))
   \<and> ((pf badText = None \<or> (\<exists>q. pf badText = Some q \<and> q < 0)) \<longrightarrow>
        handleFoodQuantityChange pf ignoredName badText s = s)
   \<and> (badQty \<le> 0 \<longrightarrow> mealPlan (handleAddToMeal ignoredName badQty c0 s) = mealPlan s)
   \<and> (pf goodText = Some goodQty \<and> 0 < goodQty \<longrightarrow>
        getSelectedFoodQuantity addedName (handleFoodQuantityChange pf addedName goodText s) = goodQty)"
proof -
  let ?r = "run_menu pf evs initial_state"
  have inv: "menu_invariant ?r"
    by (rule run_menu_invariant [OF initial_invariant])
  then have a: "positive_quantities (selectedFoods ?r)"
    by (simp add: menu_invariant_def)
  from inv have b: "\<forall>c. positive_quantities (mealPlan ?r c)"
    by (simp add: menu_invariant_def all_categories)
  from inv have "distinct (selected_names (selectedFoods ?r))"
    by (simp add: menu_invariant_def)
  then have c: "pf zeroText = Some 0 \<longrightarrow>
        removedName \<notin> set (selected_names (selectedFoods
          (handleFoodQuantityChange pf removedName zeroText ?r)))"
    by (simp add: handleFoodQuantityChange_def change_quantity_zero_removes)
  have d: "(pf badText = None \<or> (\<exists>q. pf badText = Some q \<and> q < 0)) \<longrightarrow>
        handleFoodQuantityChange pf ignoredName badText s = s"
    by (auto simp: handleFoodQuantityChange_def)
  have e: "badQty \<le> 0 \<longrightarrow> mealPlan (handleAddToMeal ignoredName badQty c0 s) = mealPlan s"
    by (simp add: handleAddToMeal_def)
  have f: "pf goodText = Some goodQty \<and> 0 < goodQty \<longrightarrow>
        getSelectedFoodQuantity addedName (handleFoodQuantityChange pf addedName goodText s) = goodQty"
    by (auto simp: handleFoodQuantityChange_def getSelectedFoodQuantity_def change_quantity_lookup
        split: option.split)
  from a b c d e f show ?thesis by blast
qed

theorem quantities_stay_positive_witness:
  "selectedFoods (run_menu sample_parseFloat sample_events initial_state)
     = [\<lparr>food_name = ''Rice'', quantity = 1 / 2\<rparr>, \<lparr>food_name = ''Dal'', quantity = 2\<rparr>]
   \<and> mealPlan (run_menu sample_parseFloat sample_events initial_state) Breakfast
     = [\<lparr>food_name = ''Rice'', quantity = 1 / 2\<rparr>]
   \<and> positive_quantities (selectedFoods (run_menu sample_parseFloat sample_events initial_state))
   \<and> sample_parseFloat ''0'' = Some 0
   \<and> selected_names (selectedFoods (handleFoodQuantityChange sample_parseFloat ''Rice'' ''0''
         (run_menu sample_parseFloat sample_events initial_state))) = [''Dal'']
   \<and> sample_parseFloat ''-1'' = Some (- 1)
   \<and> handleFoodQuantityChange sample_parseFloat ''Rice'' ''-1'' initial_state = initial_state
   \<and> mealPlan (handleAddToMeal ''Rice'' 0 Breakfast initial_state) = mealPlan initial_state
   \<and> sample_parseFloat ''0.5'' = Some (1 / 2)
   \<and> getSelectedFoodQuantity ''Rice''
        (handleFoodQuantityChange sample_parseFloat ''Rice'' ''0.5'' initial_state) = 1 / 2"
  using quantities_stay_positive [where pf = sample_parseFloat and evs = sample_events
      and zeroText = "''0''" and removedName = "''Rice''" and badText = "''-1''"
      and ignoredName = "''Rice''" and s = initial_state and badQty = 0 and ?c0.0 = Breakfast
      and goodText = "''0.5''" and goodQty = "1 / 2" and addedName = "''Rice''"]
  by (simp add: sample_parseFloat_def sample_events_def run_menu_def initial_state_def
      handleFoodQuantityChange_def handleAddToMeal_def change_quantity_def add_to_category_def
      splice1_def selected_names_def positive_quantities_def getSelectedFoodQuantity_def)

subsection \<open>The status of a comparison\<close>

text \<open>
  C3. For a difference that is a number, the status cell reads Deficit exactly when the
  difference is below zero, Excess exactly when it is above zero, and Meets Target
  exactly when it is zero; it never reads N/A. For a \<open>null\<close> difference it reads N/A. The
  comparison table shows this status for every nutrient.
\<close>

theorem status_text_by_sign:
  "(status_text (Some d) = ''Deficit'' \<longleftrightarrow> d < 0)
   \<and> (status_text (Some d) = ''Excess'' \<longleftrightarrow> 0 < d)
   \<and> (status_text (Some d) = ''Meets Target'' \<longleftrightarrow> d = 0)
   \<and> status_text (Some d) \<noteq> ''N/A''
   \<and> status_text None = ''N/A''
   \<and> map status (render_comparison comparison) = map (\<lambda>(nutrient, diff). status_text diff) comparison"
  by (simp add: status_text_def render_comparison_def split_def)

subsection \<open>Sending the plan to the kitchen\<close>

lemma plan_lines_member: "(c, f) \<in> set (plan_lines mp) \<longleftrightarrow> f \<in> set (mp c)"
proof -
  have "c \<in> set mealCategories"
    by (cases c) (simp_all add: mealCategories_def)
  then show ?thesis
    by (auto simp: plan_lines_def)
qed

lemma item_line_new_item: "item_line (new_item ident line) = line"
  by (cases line) (simp add: item_line_def new_item_def)

lemma created_items_lines:
  "map item_line (map (\<lambda>(k, line). new_item (g k) line) (enumerate n ls)) = ls"
  by (induction ls arbitrary: n) (simp_all add: item_line_new_item)

lemma created_items_pending:
  "list_all (\<lambda>item. \<not> prepared item \<and> \<not> delivered item)
     (map (\<lambda>(k, line). new_item (g k) line) (enumerate n ls))"
  by (induction ls arbitrary: n) (simp_all add: new_item_def)

lemma send_plan_no_request:
  "snd (handleSendToKitchen (\<lambda>request. fst (send_to_kitchen_endpoint gen plans request)) s) = None
   \<Longrightarrow> snd (send_plan gen plans s) = plans"
  by (cases "handleSendToKitchen (\<lambda>request. fst (send_to_kitchen_endpoint gen plans request)) s")
     (simp add: send_plan_def)

lemma not_all_empty: "mealPlan s c \<noteq> [] \<Longrightarrow> \<not> list_all (\<lambda>category. mealPlan s category = []) mealCategories"
  by (auto simp: all_categories)

text \<open>
  C5 (as the code has it). With all five categories empty the planner issues no request,
  says that the meal plan is empty, and no plan is created. With a category that is not
  empty and no patient selected (\<open>selectedPatient\<close> is \<open>null\<close> or \<open>0\<close>) it issues no request,
  asks for a patient, and no plan is created. With a category that is not empty and a
  patient selected it issues the request with the patient's id and the whole meal plan,
  and \<open>createPlan\<close> creates one plan for this patient whose items are, in order, all the
  entries of all five categories, each Pending. An entry of a category is an item of
  the plan, and the plan has no other items.
\<close>

theorem send_to_kitchen_guards:
  "((\<forall>c. mealPlan s c = []) \<longrightarrow>
        snd (handleSendToKitchen server s) = None
      \<and> message (fst (handleSendToKitchen server s))
          = Text ''Meal plan is empty. Please add items before sending to kitchen.''
      \<and> snd (send_plan gen plans s) = plans)
   \<and> (mealPlan u c' \<noteq> [] \<and> (selectedPatient u = None \<or> selectedPatient u = Some 0) \<longrightarrow>
        snd (handleSendToKitchen server u) = None
      \<and> message (fst (handleSendToKitchen server u)) = Text ''Please select a patient.''
      \<and> snd (send_plan gen plans u) = plans)
   \<and> (mealPlan t c \<noteq> [] \<and> selectedPatient t = Some p \<and> p \<noteq> 0 \<longrightarrow>
        snd (handleSendToKitchen server t) = Some \<lparr>patient_id = p, meal_plan = mealPlan t\<rparr>
      \<and> (\<exists>plan. createPlan gen p (mealPlan t) = Some plan
            \<and> snd (send_plan gen plans t) = plans @ [plan]
            \<and> message (fst (send_plan gen plans t)) = Text (created_message gen)
            \<and> stored_patient plan = Some p
            \<and> map item_line (stored_items plan) = plan_lines (mealPlan t)
            \<and> list_all (\<lambda>item. \<not> prepared item \<and> \<not> delivered item) (stored_items plan)))
   \<and> ((c'', f) \<in> set (plan_lines mp) \<longleftrightarrow> f \<in> set (mp c''))"
proof -
  have a: "(\<forall>c. mealPlan s c = []) \<longrightarrow>
        snd (handleSendToKitchen server s) = None
      \<and> message (fst (handleSendToKitchen server s))
          = Text ''Meal plan is empty. Please add items before sending to kitchen.''
      \<and> snd (send_plan gen plans s) = plans"
  proof
    assume e: "\<forall>c. mealPlan s c = []"
    then have n: "snd (handleSendToKitchen srv s) = None" for srv
      by (simp add: handleSendToKitchen_def all_categories)
    from e have m: "message (fst (handleSendToKitchen server s))
          = Text ''Meal plan is empty. Please add items before sending to kitchen.''"
      by (simp add: handleSendToKitchen_def all_categories)
    from n m send_plan_no_request [OF n]
    show "snd (handleSendToKitchen server s) = None
      \<and> message (fst (handleSendToKitchen server s))
          = Text ''Meal plan is empty. Please add items before sending to kitchen.''
      \<and> snd (send_plan gen plans s) = plans"
      by simp
  qed
  have b: "mealPlan u c' \<noteq> [] \<and> (selectedPatient u = None \<or> selectedPatient u = Some 0) \<longrightarrow>
        snd (handleSendToKitchen server u) = None
      \<and> message (fst (handleSendToKitchen server u)) = Text ''Please select a patient.''
      \<and> snd (send_plan gen plans u) = plans"
  proof
    assume h: "mealPlan u c' \<noteq> [] \<and> (selectedPatient u = None \<or> selectedPatient u = Some 0)"
    then have "mealPlan u c' \<noteq> []" by simp
    then have ne: "\<not> list_all (\<lambda>category. mealPlan u category = []) mealCategories"
      by (rule not_all_empty)
    with h have n: "snd (handleSendToKitchen srv u) = None" for srv
      by (auto simp: handleSendToKitchen_def)
    from h ne have m: "message (fst (handleSendToKitchen server u)) = Text ''Please select a patient.''"
      by (auto simp: handleSendToKitchen_def)
    from n m send_plan_no_request [OF n]
    show "snd (handleSendToKitchen server u) = None
      \<and> message (fst (handleSendToKitchen server u)) = Text ''Please select a patient.''
      \<and> snd (send_plan gen plans u) = plans"
      by simp
  qed
  have c: "mealPlan t c \<noteq> [] \<and> selectedPatient t = Some p \<and> p \<noteq> 0 \<longrightarrow>
        snd (handleSendToKitchen server t) = Some \<lparr>patient_id = p, meal_plan = mealPlan t\<rparr>
      \<and> (\<exists>plan. createPlan gen p (mealPlan t) = Some plan
            \<and> snd (send_plan gen plans t) = plans @ [plan]
            \<and> message (fst (send_plan gen plans t)) = Text (created_message gen)
            \<and> stored_patient plan = Some p
            \<and> map item_line (stored_items plan) = plan_lines (mealPlan t)
            \<and> list_all (\<lambda>item. \<not> prepared item \<and> \<not> delivered item) (stored_items plan))"
  proof
    assume h: "mealPlan t c \<noteq> [] \<and> selectedPatient t = Some p \<and> p \<noteq> 0"
    then have "mealPlan t c \<noteq> []" by simp
    then have ne: "\<not> list_all (\<lambda>category. mealPlan t category = []) mealCategories"
      by (rule not_all_empty)
    let ?plan = "\<lparr>stored_id = new_plan_id gen, stored_patient = Some p,
              stored_timestamp = creation_time gen,
              stored_items =
                map (\<lambda>(k, line). new_item (new_item_id gen k) line)
                  (enumerate 0 (plan_lines (mealPlan t)))\<rparr>"
    from ne have cp: "createPlan gen p (mealPlan t) = Some ?plan"
      by (simp add: createPlan_def)
    from h ne have r: "snd (handleSendToKitchen server t) = Some \<lparr>patient_id = p, meal_plan = mealPlan t\<rparr>"
      by (simp add: handleSendToKitchen_def Let_def split: response.split)
    from h ne cp have sp: "send_plan gen plans t = (t\<lparr>message := Text (created_message gen)\<rparr>, plans @ [?plan])"
      by (simp add: send_plan_def handleSendToKitchen_def send_to_kitchen_endpoint_def)
    have l: "map item_line (stored_items ?plan) = plan_lines (mealPlan t)"
      using created_items_lines [of "new_item_id gen" 0 "plan_lines (mealPlan t)"] by simp
    have f: "list_all (\<lambda>item. \<not> prepared item \<and> \<not> delivered item) (stored_items ?plan)"
      using created_items_pending [of "new_item_id gen" 0 "plan_lines (mealPlan t)"] by simp
    from cp sp l f have "createPlan gen p (mealPlan t) = Some ?plan
            \<and> snd (send_plan gen plans t) = plans @ [?plan]
            \<and> message (fst (send_plan gen plans t)) = Text (created_message gen)
            \<and> stored_patient ?plan = Some p
            \<and> map item_line (stored_items ?plan) = plan_lines (mealPlan t)
            \<and> list_all (\<lambda>item. \<not> prepared item \<and> \<not> delivered item) (stored_items ?plan)"
      by simp
    then have "\<exists>plan. createPlan gen p (mealPlan t) = Some plan
            \<and> snd (send_plan gen plans t) = plans @ [plan]
            \<and> message (fst (send_plan gen plans t)) = Text (created_message gen)
            \<and> stored_patient plan = Some p
            \<and> map item_line (stored_items plan) = plan_lines (mealPlan t)
            \<and> list_all (\<lambda>item. \<not> prepared item \<and> \<not> delivered item) (stored_items plan)"
      by (rule exI)
    with r show "snd (handleSendToKitchen server t) = Some \<lparr>patient_id = p, meal_plan = mealPlan t\<rparr>
      \<and> (\<exists>plan. createPlan gen p (mealPlan t) = Some plan
            \<and> snd (send_plan gen plans t) = plans @ [plan]
            \<and> message (fst (send_plan gen plans t)) = Text (created_message gen)
            \<and> stored_patient plan = Some p
            \<and> map item_line (stored_items plan) = plan_lines (mealPlan t)
            \<and> list_all (\<lambda>item. \<not> prepared item \<and> \<not> delivered item) (stored_items plan))"
      by simp
  qed
  have d: "(c'', f) \<in> set (plan_lines mp) \<longleftrightarrow> f \<in> set (mp c'')"
    by (rule plan_lines_member)
  from a b c d show ?thesis by blast
qed

theorem send_to_kitchen_guards_witness:
  "snd (handleSendToKitchen accepting_kitchen initial_state) = None
   \<and> snd (send_plan sample_creation [] initial_state) = []
   \<and> mealPlan breakfast_no_patient Breakfast = [\<lparr>food_name = ''Rice'', quantity = 2\<rparr>]
   \<and> selectedPatient breakfast_no_patient = None
   \<and> message (fst (handleSendToKitchen accepting_kitchen breakfast_no_patient))
       = Text ''Please select a patient.''
   \<and> mealPlan breakfast_for_patient Breakfast = [\<lparr>food_name = ''Rice'', quantity = 2\<rparr>]
   \<and> selectedPatient breakfast_for_patient = Some 7
   \<and> snd (handleSendToKitchen accepting_kitchen breakfast_for_patient)
       = Some \<lparr>patient_id = 7, meal_plan = mealPlan breakfast_for_patient\<rparr>
   \<and> snd (send_plan sample_creation [] breakfast_for_patient)
       = [\<lparr>stored_id = 12, stored_patient = Some 7, stored_timestamp = ''2025-01-02T07:30:00'',
           stored_items = [\<lparr>item_id = 100, meal_category = Breakfast, item_food_name = ''Rice'',
                             item_quantity = 2, prepared = False, delivered = False\<rparr>]\<rparr>]
   \<and> message (fst (send_plan sample_creation [] breakfast_for_patient))
       = Text ''Meal plan sent to kitchen''"
proof -
  have pl: "plan_lines (mealPlan breakfast_for_patient) = [(Breakfast, \<lparr>food_name = ''Rice'', quantity = 2\<rparr>)]"
    by (simp add: plan_lines_def mealCategories_def breakfast_for_patient_def
        breakfast_no_patient_def initial_state_def handleAddToMeal_def add_to_category_def)
  have cp: "createPlan sample_creation 7 (mealPlan breakfast_for_patient)
       = Some \<lparr>stored_id = 12, stored_patient = Some 7, stored_timestamp = ''2025-01-02T07:30:00'',
           stored_items = [\<lparr>item_id = 100, meal_category = Breakfast, item_food_name = ''Rice'',
                             item_quantity = 2, prepared = False, delivered = False\<rparr>]\<rparr>"
    by (simp add: createPlan_def pl new_item_def sample_creation_def)
       (simp add: mealCategories_def breakfast_for_patient_def
        breakfast_no_patient_def initial_state_def handleAddToMeal_def add_to_category_def)
  have e: "\<forall>c. mealPlan initial_state c = []"
    by (simp add: initial_state_def)
  have b: "mealPlan breakfast_no_patient Breakfast = [\<lparr>food_name = ''Rice'', quantity = 2\<rparr>]"
    "selectedPatient breakfast_no_patient = None"
    "mealPlan breakfast_for_patient Breakfast = [\<lparr>food_name = ''Rice'', quantity = 2\<rparr>]"
    "selectedPatient breakfast_for_patient = Some 7"
    by (simp_all add: breakfast_for_patient_def breakfast_no_patient_def initial_state_def
        handleAddToMeal_def add_to_category_def)
  from send_to_kitchen_guards [where s = initial_state and u = breakfast_no_patient
      and c' = Breakfast and t = breakfast_for_patient and c = Breakfast and p = 7
      and server = accepting_kitchen and gen = sample_creation and plans = "[]"]
    e b cp
  show ?thesis
    by (simp add: sample_creation_def)
qed

text \<open>
  C5 as stated fails: a plan with two servings of rice for breakfast is not sent, and no
  plan is created, when no patient is selected, and likewise when the selected id is 0.
\<close>

theorem send_without_patient_counterexample:
  "mealPlan breakfast_no_patient Breakfast = [\<lparr>food_name = ''Rice'', quantity = 2\<rparr>]
   \<and> selectedPatient breakfast_no_patient = None
   \<and> snd (handleSendToKitchen accepting_kitchen breakfast_no_patient) = None
   \<and> snd (send_plan sample_creation [] breakfast_no_patient) = []
   \<and> mealPlan breakfast_patient_zero Breakfast = [\<lparr>food_name = ''Rice'', quantity = 2\<rparr>]
   \<and> selectedPatient breakfast_patient_zero = Some 0
   \<and> snd (handleSendToKitchen accepting_kitchen breakfast_patient_zero) = None
   \<and> snd (send_plan sample_creation [] breakfast_patient_zero) = []"
  by (simp add: send_plan_def handleSendToKitchen_def breakfast_no_patient_def
      breakfast_patient_zero_def initial_state_def handleAddToMeal_def add_to_category_def
      mealCategories_def)

section \<open>Properties of the computation engine\<close>

subsection \<open>The scenarios of section 8\<close>

lemma lower_samples:
  "lower_case ''Rice'' = ''rice''" "lower_case ''Dal'' = ''dal''" "lower_case ''Soup'' = ''soup''"
  "lower_case ''Adult-Male'' = ''adult-male''"
  by (simp_all add: lower_case_def lower_char_def)

lemma scenario_totals:
  "aggregate [rice, dal] rice_and_dal
     = Inr ([\<lparr>food_name = ''Rice'', quantity = 2, serving_size = ''1 cup''\<rparr>,
             \<lparr>food_name = ''Dal'', quantity = 1, serving_size = ''1 bowl''\<rparr>],
            [(''calories'', Some 550), (''protein'', Some 17), (''fiber'', None)])"
  by (simp add: aggregate_def getFood_def lower_samples rice_def dal_def rice_and_dal_def
      totals_of_def nutrient_names_def nutrient_total_def contribution_def menu_line_def)

lemma scenario_comparison:
  "compare [adult_male] [(''calories'', Some 550), (''protein'', Some 17), (''fiber'', None)] ''Adult-Male''
     = Inr (adult_male,
            [(''calories'', Some (- 1450)), (''protein'', Some (- 33)), (''fiber'', None)])"
  by (simp add: compare_def getProfile_def lower_samples adult_male_def compare_nutrient_def
      known_total_def undetermined_rest_def)

lemma scenario_calculation:
  "calculate_nutrition sample_summary [rice, dal] [adult_male]
     \<lparr>selected_foods = rice_and_dal, requested_profile = ''Adult-Male''\<rparr> = Inr scenario_result"
  by (simp add: calculate_nutrition_def scenario_totals scenario_comparison)
     (simp add: scenario_result_def adult_male_def count_status_def classify_def
      sample_summary_def)

lemma scenario_missing: "aggregate [rice, dal] rice_and_soup = Inl (FoodNotFoundError ''Soup'')"
  by (simp add: aggregate_def getFood_def lower_samples rice_def dal_def rice_and_soup_def)

subsection \<open>A food that the catalog does not hold\<close>

lemma resolve_missing:
  "\<exists>item \<in> set menu. getFood catalog (food_name item) = None \<Longrightarrow>
   \<exists>n. n \<in> set (selected_names menu) \<and> getFood catalog n = None
       \<and> resolve catalog menu = Inl (FoodNotFoundError n)"
proof (induction menu)
  case Nil
  then show ?case by simp
next
  case (Cons item rest)
  show ?case
  proof (cases "getFood catalog (food_name item)")
    case None
    then show ?thesis by (auto simp: selected_names_def)
  next
    case (Some food)
    with Cons.prems have "\<exists>item \<in> set rest. getFood catalog (food_name item) = None"
      by auto
    from Cons.IH [OF this] obtain n where
      "n \<in> set (selected_names rest)" "getFood catalog n = None"
      "resolve catalog rest = Inl (FoodNotFoundError n)"
      by blast
    with Some show ?thesis by (auto simp: selected_names_def)
  qed
qed

text \<open>
  C2. When a food name of the menu is not in the catalog, \<open>aggregate\<close> fails with
  \<open>FoodNotFoundError\<close> for a name of the menu that the catalog does not hold, so it returns
  no totals; and the planner that sent this menu (with a profile selected) holds no
  calculation result afterwards, whatever it held before, and shows the error's detail.
\<close>

theorem aggregate_unknown_food_fails:
  assumes "\<exists>item \<in> set menu. getFood catalog (food_name item) = None"
  shows "\<exists>n. n \<in> set (selected_names menu) \<and> getFood catalog n = None
     \<and> aggregate catalog menu = Inl (FoodNotFoundError n)
     \<and> (selectedFoods s = menu \<and> selectedRdaProfile s \<noteq> [] \<longrightarrow>
          calculationResult
            (handleCalculateNutrition (nutrition_endpoint detail summary_line catalog profiles) s) = None
          \<and> message
            (handleCalculateNutrition (nutrition_endpoint detail summary_line catalog profiles) s)
              = CalculationError (detail (FoodNotFoundError n)))"
proof -
  from resolve_missing [OF assms] obtain n where
    n: "n \<in> set (selected_names menu)" "getFood catalog n = None"
    and r: "resolve catalog menu = Inl (FoodNotFoundError n)"
    by blast
  from r have a: "aggregate catalog menu = Inl (FoodNotFoundError n)"
    by (simp add: aggregate_def)
  from n(1) have ne: "menu \<noteq> []" by (auto simp: selected_names_def)
  have "selectedFoods s = menu \<and> selectedRdaProfile s \<noteq> [] \<longrightarrow>
          calculationResult
            (handleCalculateNutrition (nutrition_endpoint detail summary_line catalog profiles) s) = None
          \<and> message
            (handleCalculateNutrition (nutrition_endpoint detail summary_line catalog profiles) s)
              = CalculationError (detail (FoodNotFoundError n))"
    using a ne
    by (simp add: handleCalculateNutrition_def nutrition_endpoint_def calculate_nutrition_def)
  with n a show ?thesis by blast
qed

theorem aggregate_unknown_food_fails_witness:
  "getFood [rice, dal] ''Soup'' = None
   \<and> aggregate [rice, dal] rice_and_soup = Inl (FoodNotFoundError ''Soup'')
   \<and> calculationResult soup_state = Some stale_result
   \<and> calculationResult
       (handleCalculateNutrition (nutrition_endpoint sample_detail sample_summary [rice, dal] [adult_male])
          soup_state) = None
   \<and> message
       (handleCalculateNutrition (nutrition_endpoint sample_detail sample_summary [rice, dal] [adult_male])
          soup_state) = CalculationError ''Food not found: Soup''"
proof -
  have g: "getFood [rice, dal] ''Soup'' = None"
    by (simp add: getFood_def lower_samples rice_def dal_def)
  then have h: "\<exists>item \<in> set rice_and_soup. getFood [rice, dal] (food_name item) = None"
    by (simp add: rice_and_soup_def)
  have st: "selectedFoods soup_state = rice_and_soup \<and> selectedRdaProfile soup_state \<noteq> []"
    by (simp add: soup_state_def)
  from aggregate_unknown_food_fails [OF h, where s = soup_state and detail = sample_detail
      and summary_line = sample_summary and profiles = "[adult_male]"]
  obtain n where
    a: "aggregate [rice, dal] rice_and_soup = Inl (FoodNotFoundError n)"
    and c: "selectedFoods soup_state = rice_and_soup \<and> selectedRdaProfile soup_state \<noteq> [] \<longrightarrow>
          calculationResult
            (handleCalculateNutrition
               (nutrition_endpoint sample_detail sample_summary [rice, dal] [adult_male]) soup_state) = None
          \<and> message
            (handleCalculateNutrition
               (nutrition_endpoint sample_detail sample_summary [rice, dal] [adult_male]) soup_state)
              = CalculationError (sample_detail (FoodNotFoundError n))"
    by blast
  from a have n: "n = ''Soup''"
    by (simp add: scenario_missing)
  have r: "calculationResult soup_state = Some stale_result"
    by (simp add: soup_state_def)
  from g a c st n r show ?thesis
    by (simp add: sample_detail_def)
qed

subsection \<open>Doubling the quantities\<close>

lemma resolve_double:
  "resolve catalog (double_quantities menu)
     = (case resolve catalog menu of Inl e \<Rightarrow> Inl e | Inr resolved \<Rightarrow> Inr (map double_line resolved))"
  by (induction menu)
     (simp_all add: double_quantities_def double_line_def split: option.split sum.split)

lemma sum_known_double:
  "sum_known (map (map_option (\<lambda>v. 2 * v)) cs) = map_option (\<lambda>v. 2 * v) (sum_known cs)"
  by (induction cs) (auto split: option.split)

lemma contribution_double:
  "contribution nutrient (double_line line) = map_option (\<lambda>v. 2 * v) (contribution nutrient line)"
  by (cases "map_of (nutrients (snd line)) nutrient") (simp_all add: contribution_def double_line_def)

lemma nutrient_total_double:
  "nutrient_total (map double_line resolved) nutrient
     = map_option (\<lambda>v. 2 * v) (nutrient_total resolved nutrient)"
proof -
  have "map (contribution nutrient) (map double_line resolved)
          = map (map_option (\<lambda>v. 2 * v)) (map (contribution nutrient) resolved)"
    by (simp add: contribution_double)
  then show ?thesis
    by (simp only: nutrient_total_def sum_known_double)
qed

lemma nutrient_names_double: "nutrient_names (map double_line resolved) = nutrient_names resolved"
  by (simp add: nutrient_names_def double_line_def comp_def)

lemma totals_of_double:
  "totals_of (map double_line resolved)
     = map (\<lambda>entry. (fst entry, map_option (\<lambda>v. 2 * v) (snd entry))) (totals_of resolved)"
  by (simp add: totals_of_def nutrient_names_double nutrient_total_double comp_def)

lemma menu_line_double:
  "menu_line (double_line line) = (menu_line line)\<lparr>quantity := 2 * quantity (menu_line line)\<rparr>"
  by (simp add: menu_line_def double_line_def)

lemma sum_known_all:
  "list_all (\<lambda>c. c \<noteq> None) cs \<Longrightarrow> sum_known cs \<noteq> None"
  by (induction cs) (auto split: option.split)

lemma complete_totals_known:
  assumes "list_all (\<lambda>line. list_all (\<lambda>nutrient. map_of (nutrients (snd line)) nutrient \<noteq> None) names)
             resolved"
  shows "list_all (\<lambda>entry. snd entry \<noteq> None)
           (map (\<lambda>nutrient. (nutrient, nutrient_total resolved nutrient)) names)"
proof -
  have "nutrient_total resolved nutrient \<noteq> None" if "nutrient \<in> set names" for nutrient
    unfolding nutrient_total_def
  proof (rule sum_known_all)
    from assms that show "list_all (\<lambda>c. c \<noteq> None) (map (contribution nutrient) resolved)"
      by (auto simp: list_all_iff contribution_def)
  qed
  then show ?thesis by (simp add: list_all_iff)
qed

text \<open>
  C8. For a menu over a catalog with a known value of every nutrient in every selected
  food, every nutrient total is known, and the menu with all quantities doubled has the
  same lines with doubled quantities and, for every nutrient, twice the total.
\<close>

theorem aggregate_doubles:
  assumes "complete_data catalog menu"
  shows "\<exists>resolvedItems totals.
           aggregate catalog menu = Inr (resolvedItems, totals)
         \<and> list_all (\<lambda>entry. snd entry \<noteq> None) totals
         \<and> aggregate catalog (double_quantities menu)
             = Inr (map (\<lambda>line. line\<lparr>quantity := 2 * quantity line\<rparr>) resolvedItems,
                    map (\<lambda>entry. (fst entry, map_option (\<lambda>v. 2 * v) (snd entry))) totals)"
proof -
  from assms obtain resolved where
    r: "resolve catalog menu = Inr resolved"
    and c: "list_all (\<lambda>line. list_all (\<lambda>nutrient. map_of (nutrients (snd line)) nutrient \<noteq> None)
                               (nutrient_names resolved)) resolved"
    by (auto simp: complete_data_def split: sum.splits)
  from r have a: "aggregate catalog menu = Inr (map menu_line resolved, totals_of resolved)"
    by (simp add: aggregate_def)
  from c have k: "list_all (\<lambda>entry. snd entry \<noteq> None) (totals_of resolved)"
    unfolding totals_of_def by (rule complete_totals_known)
  from r have d: "aggregate catalog (double_quantities menu)
             = Inr (map (\<lambda>line. line\<lparr>quantity := 2 * quantity line\<rparr>) (map menu_line resolved),
                    map (\<lambda>entry. (fst entry, map_option (\<lambda>v. 2 * v) (snd entry))) (totals_of resolved))"
    by (simp add: aggregate_def resolve_double totals_of_double menu_line_double comp_def)
  from a k d show ?thesis by blast
qed

theorem aggregate_doubles_witness:
  "complete_data [rice, dal] rice_only
   \<and> aggregate [rice, dal] rice_only
       = Inr ([\<lparr>food_name = ''Rice'', quantity = 3 / 2, serving_size = ''1 cup''\<rparr>,
               \<lparr>food_name = ''rice'', quantity = 1, serving_size = ''1 cup''\<rparr>],
              [(''calories'', Some 500), (''protein'', Some 10)])
   \<and> aggregate [rice, dal] (double_quantities rice_only)
       = Inr ([\<lparr>food_name = ''Rice'', quantity = 3, serving_size = ''1 cup''\<rparr>,
               \<lparr>food_name = ''rice'', quantity = 2, serving_size = ''1 cup''\<rparr>],
              [(''calories'', Some 1000), (''protein'', Some 20)])"
proof -
  have l: "lower_case ''rice'' = ''rice''"
    by (simp add: lower_case_def lower_char_def)
  have c: "complete_data [rice, dal] rice_only"
    by (simp add: complete_data_def getFood_def lower_samples l rice_def dal_def rice_only_def
        nutrient_names_def)
  have a: "aggregate [rice, dal] rice_only
       = Inr ([\<lparr>food_name = ''Rice'', quantity = 3 / 2, serving_size = ''1 cup''\<rparr>,
               \<lparr>food_name = ''rice'', quantity = 1, serving_size = ''1 cup''\<rparr>],
              [(''calories'', Some 500), (''protein'', Some 10)])"
    by (simp add: aggregate_def getFood_def lower_samples l rice_def dal_def rice_only_def
      totals_of_def nutrient_names_def nutrient_total_def contribution_def menu_line_def)
  from aggregate_doubles [OF c] a c show ?thesis by auto
qed

subsection \<open>Unknown totals stay unknown\<close>

lemma totals_of_distinct: "distinct (map fst (totals_of resolved))"
  by (simp add: totals_of_def nutrient_names_def comp_def)

lemma undetermined_rest_unknown:
  "(k, v) \<in> set (undetermined_rest totals profileTargets) \<Longrightarrow> v = None"
  by (auto simp: undetermined_rest_def)

lemma comparison_unknown:
  assumes "map_of totals n = Some None"
    and "(n, v) \<in> set (map (compare_nutrient totals) profileTargets @ undetermined_rest totals profileTargets)"
  shows "v = None"
proof (cases "(n, v) \<in> set (undetermined_rest totals profileTargets)")
  case True
  then show ?thesis by (rule undetermined_rest_unknown)
next
  case False
  with assms(2) have "(n, v) \<in> set (map (compare_nutrient totals) profileTargets)"
    by simp
  with assms(1) show ?thesis
    by (auto simp: compare_nutrient_def known_total_def)
qed

lemma comparison_has_unknown:
  assumes "(n, None) \<in> set totals" and "map_of totals n = Some None"
  shows "(n, None) \<in> set (map (compare_nutrient totals) profileTargets @ undetermined_rest totals profileTargets)"
proof (cases "n \<in> set (map fst profileTargets)")
  case True
  then obtain target where "(n, target) \<in> set profileTargets"
    by auto
  moreover from assms(2) have "compare_nutrient totals (n, target) = (n, None)"
    by (simp add: compare_nutrient_def known_total_def)
  ultimately have "(n, None) \<in> set (map (compare_nutrient totals) profileTargets)"
    by force
  then show ?thesis by simp
next
  case False
  with assms(1) have "(n, None) \<in> set (undetermined_rest totals profileTargets)"
    by (force simp: undetermined_rest_def)
  then show ?thesis by simp
qed

lemma calculate_nutrition_distinct:
  assumes "calculate_nutrition summary_line catalog profiles request = Inr r"
  shows "distinct (map fst (total_nutrients r))"
  using assms
  by (auto simp: calculate_nutrition_def aggregate_def compare_def totals_of_distinct
      split: sum.splits option.splits)

lemma calculate_nutrition_comparison:
  assumes "calculate_nutrition summary_line catalog profiles request = Inr r"
  shows "\<exists>profileTargets :: (string \<times> real) list.
           nutrient_comparison r
             = map (compare_nutrient (total_nutrients r)) profileTargets
                 @ undetermined_rest (total_nutrients r) profileTargets"
  using assms
  by (auto simp: calculate_nutrition_def aggregate_def compare_def split: sum.splits option.splits)
     (rule exI, rule refl)

lemma calculate_nutrition_menu:
  assumes "calculate_nutrition summary_line catalog profiles request = Inr r"
    and "(n, v) \<in> set (total_nutrients r)"
  shows "selected_foods request \<noteq> []"
proof
  assume "selected_foods request = []"
  with assms(1) have "total_nutrients r = []"
    by (auto simp: calculate_nutrition_def aggregate_def compare_def totals_of_def
        nutrient_names_def split: sum.splits option.splits)
  with assms(2) show False by simp
qed

lemma render_total_member:
  "(n, v) \<in> set totals \<Longrightarrow>
   \<lparr>total_nutrient = n, total_amount = number_cell v\<rparr> \<in> set (render_total_nutrients totals)"
  by (force simp: render_total_nutrients_def)

lemma render_comparison_member:
  "(n, v) \<in> set comparison \<Longrightarrow>
   \<lparr>className = row_class v, row_nutrient = n, difference = number_cell v, status = status_text v\<rparr>
     \<in> set (render_comparison comparison)"
  by (force simp: render_comparison_def)

text \<open>
  C4. When the calculation for the planner's menu and profile gives a result in which the
  total of a nutrient is \<open>null\<close>, the planner shows a results section after the
  calculation; its table of totals has a row for this nutrient with the amount N/A, and
  every row of this nutrient has it; its comparison table has a row for this nutrient
  with the difference N/A and the status N/A, and every row of this nutrient has them
  (and no deficit or excess class). N/A is neither the amount cell nor the status of the
  number zero.
\<close>

theorem unknown_total_displays_not_available:
  assumes "selectedRdaProfile s \<noteq> []"
    and "calculate_nutrition summary_line catalog profiles
           \<lparr>selected_foods = selectedFoods s, requested_profile = selectedRdaProfile s\<rparr> = Inr r"
    and "(n, None) \<in> set (total_nutrients r)"
  shows "\<exists>view.
           results_section
             (handleCalculateNutrition (nutrition_endpoint detail summary_line catalog profiles) s)
             = Some view
         \<and> \<lparr>total_nutrient = n, total_amount = Literal ''N/A''\<rparr> \<in> set (totals_table view)
         \<and> (\<forall>row \<in> set (totals_table view).
               total_nutrient row = n \<longrightarrow> total_amount row = Literal ''N/A'')
         \<and> \<lparr>className = [], row_nutrient = n, difference = Literal ''N/A'', status = ''N/A''\<rparr>
               \<in> set (comparison_table view)
         \<and> (\<forall>row \<in> set (comparison_table view).
               row_nutrient row = n \<longrightarrow>
                 difference row = Literal ''N/A'' \<and> status row = ''N/A'' \<and> className row = [])
         \<and> number_cell None \<noteq> number_cell (Some 0)
         \<and> status_text None \<noteq> status_text (Some 0)"
proof -
  let ?view = "\<lparr>menu_list = selected_menu r,
                totals_table = render_total_nutrients (total_nutrients r),
                targets_heading = rda_profile_name r,
                targets_table = render_targets (rda_targets r),
                comparison_table = render_comparison (nutrient_comparison r),
                summary_paragraph = final_summary r\<rparr>"
  from calculate_nutrition_menu [OF assms(2) assms(3)] have ne: "selectedFoods s \<noteq> []"
    by simp
  with assms(1) assms(2)
  have shown: "results_section
      (handleCalculateNutrition (nutrition_endpoint detail summary_line catalog profiles) s)
      = Some ?view"
    by (simp add: handleCalculateNutrition_def nutrition_endpoint_def results_section_def)
  have dist: "distinct (map fst (total_nutrients r))"
    by (rule calculate_nutrition_distinct [OF assms(2)])
  with assms(3) have m: "map_of (total_nutrients r) n = Some None"
    by simp
  from calculate_nutrition_comparison [OF assms(2)]
  obtain profileTargets :: "(string \<times> real) list" where
    c: "nutrient_comparison r
          = map (compare_nutrient (total_nutrients r)) profileTargets
              @ undetermined_rest (total_nutrients r) profileTargets"
    by blast
  from render_total_member [OF assms(3)]
  have t1: "\<lparr>total_nutrient = n, total_amount = Literal ''N/A''\<rparr> \<in> set (totals_table ?view)"
    by (simp add: number_cell_def)
  have t2: "\<forall>row \<in> set (totals_table ?view).
            total_nutrient row = n \<longrightarrow> total_amount row = Literal ''N/A''"
  proof (intro ballI impI)
    fix row
    assume "row \<in> set (totals_table ?view)" and n: "total_nutrient row = n"
    then obtain k v where kv: "(k, v) \<in> set (total_nutrients r)"
      and row: "row = \<lparr>total_nutrient = k, total_amount = number_cell v\<rparr>"
      by (auto simp: render_total_nutrients_def)
    with n have "k = n" by simp
    with kv dist m have "v = None" by simp
    with row show "total_amount row = Literal ''N/A''" by (simp add: number_cell_def)
  qed
  from comparison_has_unknown [OF assms(3) m, of profileTargets]
  have "(n, None) \<in> set (nutrient_comparison r)"
    by (simp only: c)
  from render_comparison_member [OF this]
  have c1: "\<lparr>className = [], row_nutrient = n, difference = Literal ''N/A'', status = ''N/A''\<rparr>
               \<in> set (comparison_table ?view)"
    by (simp add: number_cell_def status_text_def row_class_def)
  have c2: "\<forall>row \<in> set (comparison_table ?view).
            row_nutrient row = n \<longrightarrow>
              difference row = Literal ''N/A'' \<and> status row = ''N/A'' \<and> className row = []"
  proof (intro ballI impI)
    fix row
    assume "row \<in> set (comparison_table ?view)" and n: "row_nutrient row = n"
    then obtain k v where kv: "(k, v) \<in> set (nutrient_comparison r)"
      and row: "row = \<lparr>className = row_class v, row_nutrient = k,
                        difference = number_cell v, status = status_text v\<rparr>"
      by (auto simp: render_comparison_def)
    with n have "k = n" by simp
    with kv have "(n, v) \<in> set (map (compare_nutrient (total_nutrients r)) profileTargets
              @ undetermined_rest (total_nutrients r) profileTargets)"
      by (simp only: c)
    from comparison_unknown [OF m this] row
    show "difference row = Literal ''N/A'' \<and> status row = ''N/A'' \<and> className row = []"
      by (simp add: number_cell_def status_text_def row_class_def)
  qed
  have d: "number_cell None \<noteq> number_cell (Some 0)" "status_text None \<noteq> status_text (Some 0)"
    by (simp_all add: number_cell_def status_text_def)
  from shown t1 t2 c1 c2 d show ?thesis by blast
qed

theorem unknown_total_displays_not_available_witness:
  "calculate_nutrition sample_summary [rice, dal] [adult_male]
     \<lparr>selected_foods = selectedFoods dal_state, requested_profile = selectedRdaProfile dal_state\<rparr>
     = Inr scenario_result
   \<and> (''fiber'', None) \<in> set (total_nutrients scenario_result)
   \<and> results_section dal_state = None
   \<and> results_section
       (handleCalculateNutrition (nutrition_endpoint sample_detail sample_summary [rice, dal] [adult_male])
          dal_state)
     = Some \<lparr>menu_list = [\<lparr>food_name = ''Rice'', quantity = 2, serving_size = ''1 cup''\<rparr>,
                          \<lparr>food_name = ''Dal'', quantity = 1, serving_size = ''1 bowl''\<rparr>],
             totals_table =
               [\<lparr>total_nutrient = ''calories'', total_amount = ToFixed 550 2\<rparr>,
                \<lparr>total_nutrient = ''protein'', total_amount = ToFixed 17 2\<rparr>,
                \<lparr>total_nutrient = ''fiber'', total_amount = Literal ''N/A''\<rparr>],
             targets_heading = ''Adult-Male'',
             targets_table =
               [\<lparr>target_nutrient = ''calories'', target_amount = ToFixed 2000 2\<rparr>,
                \<lparr>target_nutrient = ''protein'', target_amount = ToFixed 50 2\<rparr>],
             comparison_table =
               [\<lparr>className = ''deficit'', row_nutrient = ''calories'',
                  difference = ToFixed (- 1450) 2, status = ''Deficit''\<rparr>,
                \<lparr>className = ''deficit'', row_nutrient = ''protein'',
                  difference = ToFixed (- 33) 2, status = ''Deficit''\<rparr>,
                \<lparr>className = [], row_nutrient = ''fiber'',
                  difference = Literal ''N/A'', status = ''N/A''\<rparr>],
             summary_paragraph = ''Some targets missed.''\<rparr>"
proof -
  have st: "selectedFoods dal_state = rice_and_dal" "selectedRdaProfile dal_state = ''Adult-Male''"
    "results_section dal_state = None"
    by (simp_all add: dal_state_def initial_state_def results_section_def)
  have p: "selectedRdaProfile dal_state \<noteq> []"
    by (simp add: st)
  have c: "calculate_nutrition sample_summary [rice, dal] [adult_male]
     \<lparr>selected_foods = selectedFoods dal_state, requested_profile = selectedRdaProfile dal_state\<rparr>
     = Inr scenario_result"
    by (simp only: st scenario_calculation)
  have f: "(''fiber'', None) \<in> set (total_nutrients scenario_result)"
    by (simp add: scenario_result_def)
  have sh: "results_section
       (handleCalculateNutrition (nutrition_endpoint sample_detail sample_summary [rice, dal] [adult_male])
          dal_state)
     = Some \<lparr>menu_list = selected_menu scenario_result,
                totals_table = render_total_nutrients (total_nutrients scenario_result),
                targets_heading = rda_profile_name scenario_result,
                targets_table = render_targets (rda_targets scenario_result),
                comparison_table = render_comparison (nutrient_comparison scenario_result),
                summary_paragraph = final_summary scenario_result\<rparr>"
    using c
    by (simp add: handleCalculateNutrition_def nutrition_endpoint_def results_section_def st
        rice_and_dal_def)
  from unknown_total_displays_not_available [OF p c f, of sample_detail] c f st(3) sh
  show ?thesis
    by (simp add: scenario_result_def render_total_nutrients_def render_targets_def
        render_comparison_def number_cell_def status_text_def row_class_def)
qed

end
